theory Spec2Isabelle
  imports Main "HOL-Library.Word"
begin

section \<open>Machine types and faults\<close>

type_synonym u32 = "32 word"
type_synonym u64 = "64 word"

text \<open>
  \<^verbatim>\<open>atomic_t\<close> wraps one 32-bit signed integer; \<^verbatim>\<open>atomic_add\<close> and \<^verbatim>\<open>atomic_sub\<close>
  are \<open>+\<close> and \<open>-\<close> on the word (they wrap), and the counter is read with \<open>sint\<close>.
\<close>

type_synonym atomic_t = "32 word"

text \<open>\<^verbatim>\<open>struct task *\<close>, the handler and its argument are opaque handles.\<close>

type_synonym task = nat
type_synonym handle = nat

text \<open>
  What C leaves undefined or turns into a panic is a value of the model:
  an array index outside \<open>0 ..< CONFIG_CORE_COUNT\<close>, a failed \<^verbatim>\<open>assert\<close>, a
  dereferenced null pointer, a pointer read at the wrong type, and a backend hook
  that ends the calling thread instead of returning.
\<close>

datatype fault = Out_of_bounds | Assert_failed | Null_pointer | Bad_pointer | No_return

section \<open>The low-latency schedule domain (ll\_schedule\_domain.h)\<close>

text \<open>
  \<^verbatim>\<open>struct ll_schedule_domain\<close>. The two per-core arrays are functions on the index;
  only the indices below \<^verbatim>\<open>CONFIG_CORE_COUNT\<close> (the argument \<open>cc\<close> of every operation
  that indexes them) belong to the arrays. The spinlock carries no data and is left out.
  The \<^verbatim>\<open>ops\<close> pointer is constant after \<^verbatim>\<open>domain_init\<close>: the table is an argument
  of each operation.
\<close>

record 'p ll_schedule_domain =
  next_tick :: u64
  new_target_tick :: u64
  total_num_tasks :: atomic_t
  enabled_cores :: atomic_t
  ticks_per_ms :: u32
  domain_type :: int
  clk :: int
  synchronous :: bool
  full_sync :: bool
  priv_data :: 'p
  registered :: "nat \<Rightarrow> bool"
  enabled :: "nat \<Rightarrow> bool"

text \<open>
  \<^verbatim>\<open>struct ll_schedule_domain_ops\<close>: a null function pointer is \<open>None\<close>. A hook
  receives the domain and may write any field of it, so it returns the domain.
  \<^verbatim>\<open>domain_unregister\<close> may not return: its result is then \<open>None\<close>.
\<close>

record 'p ll_schedule_domain_ops =
  ops_domain_register ::
    "('p ll_schedule_domain \<Rightarrow> task \<Rightarrow> handle \<Rightarrow> handle \<Rightarrow> int \<times> 'p ll_schedule_domain) option"
  ops_domain_unregister ::
    "('p ll_schedule_domain \<Rightarrow> task \<Rightarrow> u32 \<Rightarrow> (int \<times> 'p ll_schedule_domain) option) option"
  ops_domain_enable :: "('p ll_schedule_domain \<Rightarrow> int \<Rightarrow> 'p ll_schedule_domain) option"
  ops_domain_disable :: "('p ll_schedule_domain \<Rightarrow> int \<Rightarrow> 'p ll_schedule_domain) option"
  ops_domain_set :: "('p ll_schedule_domain \<Rightarrow> u64 \<Rightarrow> 'p ll_schedule_domain) option"
  ops_domain_clear :: "('p ll_schedule_domain \<Rightarrow> 'p ll_schedule_domain) option"
  ops_domain_is_pending ::
    "('p ll_schedule_domain \<Rightarrow> task \<Rightarrow> bool \<times> 'p ll_schedule_domain) option"

text \<open>The calls made through the table, in order: the observable effect on the backend.\<close>

datatype backend_call =
    Hook_register task
  | Hook_unregister task u32
  | Hook_enable int
  | Hook_disable int
  | Hook_set u64
  | Hook_clear
  | Hook_is_pending task

record 'p sched =
  domain :: "'p ll_schedule_domain"
  hook_log :: "backend_call list"

definition UINT64_MAX :: u64 where
  "UINT64_MAX = - 1"

definition valid_core :: "nat \<Rightarrow> int \<Rightarrow> bool" where
  "valid_core cc core \<longleftrightarrow> 0 \<le> core \<and> core < int cc"

text \<open>
  \<^verbatim>\<open>domain_init\<close>. \<open>block\<close> is what \<^verbatim>\<open>rballoc\<close> returned: \<open>None\<close> for a null pointer
  (the code writes through it unchecked), otherwise the block with whatever it held.
  The function writes the fields below and no other: \<^verbatim>\<open>registered[]\<close> and \<^verbatim>\<open>enabled[]\<close>
  keep the block's contents. \<open>clock_ms_to_ticks\<close> is the platform's conversion.
\<close>

definition domain_init ::
  "'p ll_schedule_domain option \<Rightarrow> (int \<Rightarrow> nat \<Rightarrow> u32) \<Rightarrow> int \<Rightarrow> int \<Rightarrow> bool
     \<Rightarrow> fault + 'p ll_schedule_domain" where
  "domain_init block clock_ms_to_ticks type clock sync =
     (case block of
        None \<Rightarrow> Inl Null_pointer
      | Some d \<Rightarrow>
          Inr (d\<lparr>domain_type := type, clk := clock, synchronous := sync,
                 full_sync := False, ticks_per_ms := clock_ms_to_ticks clock 1,
                 next_tick := UINT64_MAX, new_target_tick := UINT64_MAX,
                 total_num_tasks := 0, enabled_cores := 0\<rparr>))"

text \<open>\<^verbatim>\<open>domain_set\<close>: the backend's setter when there is one, else the tick is stored.\<close>

definition domain_set :: "'p ll_schedule_domain_ops \<Rightarrow> 'p sched \<Rightarrow> u64 \<Rightarrow> 'p sched" where
  "domain_set ops m start =
     (case ops_domain_set ops of
        Some hook \<Rightarrow> \<lparr>domain = hook (domain m) start, hook_log = hook_log m @ [Hook_set start]\<rparr>
      | None \<Rightarrow> m\<lparr>domain := (domain m)\<lparr>next_tick := start\<rparr>\<rparr>)"

text \<open>\<^verbatim>\<open>domain_clear\<close>: the backend's hook when there is one, then the tick is reset.\<close>

definition domain_clear :: "'p ll_schedule_domain_ops \<Rightarrow> 'p sched \<Rightarrow> 'p sched" where
  "domain_clear ops m =
     (let m1 = (case ops_domain_clear ops of
                  Some hook \<Rightarrow> \<lparr>domain = hook (domain m), hook_log = hook_log m @ [Hook_clear]\<rparr>
                | None \<Rightarrow> m)
      in m1\<lparr>domain := (domain m1)\<lparr>next_tick := UINT64_MAX\<rparr>\<rparr>)"

text \<open>
  \<^verbatim>\<open>domain_register\<close>; \<open>cpu\<close> is \<^verbatim>\<open>cpu_get_id()\<close>. The result carries the hook's
  return value.
\<close>

definition domain_register ::
  "nat \<Rightarrow> 'p ll_schedule_domain_ops \<Rightarrow> 'p sched \<Rightarrow> int \<Rightarrow> task \<Rightarrow> handle \<Rightarrow> handle
     \<Rightarrow> fault + (int \<times> 'p sched)" where
  "domain_register cc ops m cpu tsk handler arg =
     (case ops_domain_register ops of
        None \<Rightarrow> Inl Assert_failed
      | Some hook \<Rightarrow>
          (let (ret, d1) = hook (domain m) tsk handler arg;
               log = hook_log m @ [Hook_register tsk]
           in if ret = 0 then
                (let d2 = d1\<lparr>total_num_tasks := total_num_tasks d1 + 1\<rparr>
                 in if \<not> valid_core cc cpu then Inl Out_of_bounds
                    else if \<not> registered d2 (nat cpu)
                      then Inr (ret, \<lparr>domain = d2\<lparr>registered := (registered d2)(nat cpu := True)\<rparr>,
                                      hook_log = log\<rparr>)
                      else Inr (ret, \<lparr>domain = d2, hook_log = log\<rparr>))
              else Inr (ret, \<lparr>domain = d1, hook_log = log\<rparr>)))"

text \<open>
  \<^verbatim>\<open>domain_unregister\<close>; \<open>cpu\<close> is \<^verbatim>\<open>cpu_get_id()\<close>. The counter and the flag are
  written before the hook runs, and the failure branch adds one back and then tests
  \<^verbatim>\<open>domain->registered[core]\<close>, the flag as it is at that moment, before storing the
  saved value.
\<close>

definition domain_unregister ::
  "nat \<Rightarrow> 'p ll_schedule_domain_ops \<Rightarrow> 'p sched \<Rightarrow> int \<Rightarrow> task \<Rightarrow> u32 \<Rightarrow> fault + 'p sched" where
  "domain_unregister cc ops m cpu tsk num_tasks =
     (if \<not> valid_core cc cpu then Inl Out_of_bounds
      else case ops_domain_unregister ops of
        None \<Rightarrow> Inl Assert_failed
      | Some hook \<Rightarrow>
          (let d0 = domain m;
               was_registered = registered d0 (nat cpu);
               d1 = d0\<lparr>total_num_tasks := total_num_tasks d0 - 1\<rparr>;
               d2 = (if num_tasks = 0 \<and> was_registered
                     then d1\<lparr>registered := (registered d1)(nat cpu := False)\<rparr> else d1);
               log = hook_log m @ [Hook_unregister tsk num_tasks]
           in case hook d2 tsk num_tasks of
                None \<Rightarrow> Inl No_return
              | Some (ret, d3) \<Rightarrow>
                  if ret < 0 then
                    (let d4 = d3\<lparr>total_num_tasks := total_num_tasks d3 + 1\<rparr>;
                         d5 = (if num_tasks = 0 \<and> registered d4 (nat cpu)
                               then d4\<lparr>registered := (registered d4)(nat cpu := was_registered)\<rparr>
                               else d4)
                     in Inr \<lparr>domain = d5, hook_log = log\<rparr>)
                  else Inr \<lparr>domain = d3, hook_log = log\<rparr>))"

text \<open>\<^verbatim>\<open>domain_enable\<close> and \<^verbatim>\<open>domain_disable\<close>.\<close>

definition domain_enable ::
  "nat \<Rightarrow> 'p ll_schedule_domain_ops \<Rightarrow> 'p sched \<Rightarrow> int \<Rightarrow> fault + 'p sched" where
  "domain_enable cc ops m core =
     (if \<not> valid_core cc core then Inl Out_of_bounds
      else case (enabled (domain m) (nat core), ops_domain_enable ops) of
        (False, Some hook) \<Rightarrow>
          (let d1 = hook (domain m) core;
               d2 = d1\<lparr>enabled := (enabled d1)(nat core := True)\<rparr>;
               d3 = d2\<lparr>enabled_cores := enabled_cores d2 + 1\<rparr>
           in Inr \<lparr>domain = d3, hook_log = hook_log m @ [Hook_enable core]\<rparr>)
      | _ \<Rightarrow> Inr m)"

definition domain_disable ::
  "nat \<Rightarrow> 'p ll_schedule_domain_ops \<Rightarrow> 'p sched \<Rightarrow> int \<Rightarrow> fault + 'p sched" where
  "domain_disable cc ops m core =
     (if \<not> valid_core cc core then Inl Out_of_bounds
      else case (enabled (domain m) (nat core), ops_domain_disable ops) of
        (True, Some hook) \<Rightarrow>
          (let d1 = hook (domain m) core;
               d2 = d1\<lparr>enabled := (enabled d1)(nat core := False)\<rparr>;
               d3 = d2\<lparr>enabled_cores := enabled_cores d2 - 1\<rparr>
           in Inr \<lparr>domain = d3, hook_log = hook_log m @ [Hook_disable core]\<rparr>)
      | _ \<Rightarrow> Inr m)"

text \<open>\<^verbatim>\<open>domain_is_pending\<close>.\<close>

definition domain_is_pending ::
  "'p ll_schedule_domain_ops \<Rightarrow> 'p sched \<Rightarrow> task \<Rightarrow> fault + (bool \<times> 'p sched)" where
  "domain_is_pending ops m tsk =
     (case ops_domain_is_pending ops of
        None \<Rightarrow> Inl Assert_failed
      | Some hook \<Rightarrow>
          (let (ret, d1) = hook (domain m) tsk
           in Inr (ret, \<lparr>domain = d1, hook_log = hook_log m @ [Hook_is_pending tsk]\<rparr>)))"

subsection \<open>Invariant, call sequences and concrete inputs\<close>

text \<open>
  The number of true entries of \<^verbatim>\<open>enabled[]\<close>, and the invariant that the counter equals it.
\<close>

definition count_enabled :: "nat \<Rightarrow> 'p ll_schedule_domain \<Rightarrow> nat" where
  "count_enabled cc d = length (filter (enabled d) [0..<cc])"

definition enabled_cores_inv :: "nat \<Rightarrow> 'p ll_schedule_domain \<Rightarrow> bool" where
  "enabled_cores_inv cc d \<longleftrightarrow> sint (enabled_cores d) = int (count_enabled cc d)"

text \<open>
  The frame condition on a backend: its enable and disable hooks leave \<^verbatim>\<open>enabled[]\<close> and
  \<^verbatim>\<open>enabled_cores\<close> alone (they program the interrupt source).
\<close>

definition hooks_keep_enabled :: "'p ll_schedule_domain_ops \<Rightarrow> bool" where
  "hooks_keep_enabled ops \<longleftrightarrow>
     (case ops_domain_enable ops of
        None \<Rightarrow> True
      | Some hook \<Rightarrow> \<forall>d c. enabled (hook d c) = enabled d \<and> enabled_cores (hook d c) = enabled_cores d)
     \<and>
     (case ops_domain_disable ops of
        None \<Rightarrow> True
      | Some hook \<Rightarrow> \<forall>d c. enabled (hook d c) = enabled d \<and> enabled_cores (hook d c) = enabled_cores d)"

text \<open>
  A sequence of \<^verbatim>\<open>domain_enable\<close> and \<^verbatim>\<open>domain_disable\<close> calls, run in order; a fault ends it.
\<close>

datatype domain_call = Enable int | Disable int

fun call_core :: "domain_call \<Rightarrow> int" where
  "call_core (Enable c) = c"
| "call_core (Disable c) = c"

fun run_calls ::
  "nat \<Rightarrow> 'p ll_schedule_domain_ops \<Rightarrow> 'p sched \<Rightarrow> domain_call list \<Rightarrow> fault + 'p sched" where
  "run_calls cc ops m [] = Inr m"
| "run_calls cc ops m (Enable c # cs) =
     (case domain_enable cc ops m c of Inl f \<Rightarrow> Inl f | Inr m1 \<Rightarrow> run_calls cc ops m1 cs)"
| "run_calls cc ops m (Disable c # cs) =
     (case domain_disable cc ops m c of Inl f \<Rightarrow> Inl f | Inr m1 \<Rightarrow> run_calls cc ops m1 cs)"

text \<open>
  Two \<^verbatim>\<open>domain_enable\<close> calls in a row, and the number of enable-hook calls in a log.
\<close>

definition enable_twice ::
  "nat \<Rightarrow> 'p ll_schedule_domain_ops \<Rightarrow> 'p sched \<Rightarrow> int \<Rightarrow> fault + 'p sched" where
  "enable_twice cc ops m core =
     (case domain_enable cc ops m core of
        Inl f \<Rightarrow> Inl f
      | Inr m1 \<Rightarrow> domain_enable cc ops m1 core)"

fun hook_enable_calls :: "backend_call list \<Rightarrow> nat" where
  "hook_enable_calls [] = 0"
| "hook_enable_calls (Hook_enable c # cs) = Suc (hook_enable_calls cs)"
| "hook_enable_calls (_ # cs) = hook_enable_calls cs"

text \<open>
  Concrete inputs: a zeroed block, a block whose \<^verbatim>\<open>enabled[0]\<close> holds a stale true, and a
  backend whose hooks return without touching the domain (its unregister hook reports failure).
\<close>

definition zero_block :: "unit ll_schedule_domain" where
  "zero_block =
     \<lparr>next_tick = 0, new_target_tick = 0, total_num_tasks = 0, enabled_cores = 0,
      ticks_per_ms = 0, domain_type = 0, clk = 0, synchronous = False, full_sync = False,
      priv_data = (), registered = (\<lambda>i. False), enabled = (\<lambda>i. False)\<rparr>"

definition stale_block :: "unit ll_schedule_domain" where
  "stale_block = zero_block\<lparr>enabled := (\<lambda>i. i = 0)\<rparr>"

definition quiet_ops :: "unit ll_schedule_domain_ops" where
  "quiet_ops =
     \<lparr>ops_domain_register = Some (\<lambda>d t h a. (0, d)),
      ops_domain_unregister = Some (\<lambda>d t n. Some (- 1, d)),
      ops_domain_enable = Some (\<lambda>d c. d),
      ops_domain_disable = Some (\<lambda>d c. d),
      ops_domain_set = None,
      ops_domain_clear = None,
      ops_domain_is_pending = None\<rparr>"

section \<open>The topology registry (ipc3/helper.c)\<close>

subsection \<open>Data\<close>

text \<open>
  A non-null pointer is an address; a pointer is an \<open>addr option\<close>, \<open>None\<close> for
  \<^verbatim>\<open>NULL\<close>. The structures below are declared in headers outside helper.c: each has the
  fields helper.c reads or writes, and a pipeline has the fields the specification's
  data model lists.
\<close>

type_synonym addr = nat

definition EINVAL :: int where "EINVAL = 22"
definition ENOMEM :: int where "ENOMEM = 12"

text \<open>The tag of a registry entry (\<^verbatim>\<open>icd->type\<close>); any other value is \<open>COMP_TYPE_UNKNOWN\<close>.\<close>

datatype ipc_type = COMP_TYPE_COMPONENT | COMP_TYPE_BUFFER | COMP_TYPE_PIPELINE | COMP_TYPE_UNKNOWN

text \<open>
  The processing state of a component. helper.c compares it with \<^verbatim>\<open>COMP_STATE_READY\<close>
  only: every other state counts as active.
\<close>

datatype comp_state =
    COMP_STATE_INIT | COMP_STATE_READY | COMP_STATE_SUSPEND
  | COMP_STATE_PREPARE | COMP_STATE_PAUSED | COMP_STATE_ACTIVE

text \<open>The component type tags helper.c names; any other tag is \<open>SOF_COMP_OTHER\<close>.\<close>

datatype sof_comp_type =
    SOF_COMP_HOST | SOF_COMP_SG_HOST | SOF_COMP_DAI | SOF_COMP_SG_DAI
  | SOF_COMP_VOLUME | SOF_COMP_SRC | SOF_COMP_TONE | SOF_COMP_ASRC
  | SOF_COMP_EQ_IIR | SOF_COMP_EQ_FIR | SOF_COMP_KEYWORD_DETECT | SOF_COMP_KPB
  | SOF_COMP_SELECTOR | SOF_COMP_DEMUX | SOF_COMP_MUX | SOF_COMP_DCBLOCK
  | SOF_COMP_SMART_AMP | SOF_COMP_CODEC_ADAPTOR | SOF_COMP_BUFFER | SOF_COMP_OTHER nat

text \<open>\<^verbatim>\<open>struct comp_ipc_config\<close>, filled by \<^verbatim>\<open>comp_common_builder\<close>.\<close>

record comp_ipc_config =
  cfg_core :: u32
  cfg_id :: u32
  cfg_pipeline_id :: u32
  cfg_type :: sof_comp_type
  cfg_frame_fmt :: u32
  cfg_periods_sink :: u32
  cfg_periods_source :: u32
  cfg_xrun_action :: u32

text \<open>
  \<^verbatim>\<open>struct comp_dev\<close>: \<^verbatim>\<open>bsource_list\<close> holds the buffers the component reads from,
  \<^verbatim>\<open>bsink_list\<close> the buffers it writes to.
\<close>

record comp_dev =
  cd_ipc_config :: comp_ipc_config
  cd_state :: comp_state
  cd_is_shared :: bool
  cd_pipeline :: "addr option"
  cd_bsource_list :: "addr list"
  cd_bsink_list :: "addr list"

text \<open>\<^verbatim>\<open>struct comp_buffer\<close>.\<close>

record comp_buffer =
  cb_id :: u32
  cb_pipeline_id :: u32
  cb_core :: u32
  cb_inter_core :: bool
  cb_source :: "addr option"
  cb_sink :: "addr option"

text \<open>\<^verbatim>\<open>struct pipeline\<close>.\<close>

record pipeline =
  p_pipeline_id :: u32
  p_priority :: u32
  p_comp_id :: u32
  p_sched_id :: u32
  p_core :: u32
  p_period :: u32
  p_period_mips :: u32
  p_frames_per_sched :: u32
  p_time_domain :: u32
  p_xrun_limit_usecs :: u32
  p_source_comp :: "addr option"
  p_sink_comp :: "addr option"
  p_sched_comp :: "addr option"

text \<open>
  \<^verbatim>\<open>struct ipc_comp_dev\<close>, a registry entry. The members \<^verbatim>\<open>cd\<close>, \<^verbatim>\<open>cb\<close> and
  \<^verbatim>\<open>pipeline\<close> are one union: one pointer, read at the type the code names.
\<close>

record ipc_comp_dev =
  icd_type :: ipc_type
  icd_core :: u32
  icd_id :: u32
  icd_ptr :: "addr option"

text \<open>
  The memory: what is allocated at each address. \<^verbatim>\<open>struct ipc\<close> is the registry
  \<^verbatim>\<open>comp_list\<close>, in insertion order; a pointer to an entry is its position in the list.
\<close>

datatype obj = Comp comp_dev | Buf comp_buffer | Pipe pipeline

record ipc =
  comp_list :: "ipc_comp_dev list"
  heap :: "addr \<Rightarrow> obj option"

text \<open>The messages of the IPC dispatcher.\<close>

record sof_ipc_pipe_new =
  pn_comp_id :: u32
  pn_pipeline_id :: u32
  pn_sched_id :: u32
  pn_core :: u32
  pn_period :: u32
  pn_priority :: u32
  pn_period_mips :: u32
  pn_frames_per_sched :: u32
  pn_xrun_limit_usecs :: u32
  pn_time_domain :: u32

record sof_ipc_pipe_comp_connect =
  pc_source_id :: u32
  pc_sink_id :: u32

text \<open>
  \<^verbatim>\<open>struct sof_ipc_comp\<close> with what follows it in the message: the common
  \<^verbatim>\<open>sof_ipc_comp_config\<close> (at \<^verbatim>\<open>comp + 1\<close>), the members of the derived structure, and
  the extended data, the last \<^verbatim>\<open>ext_data_length\<close> bytes of the message.
  \<^verbatim>\<open>comp_specific_builder\<close> casts the message to seven derived structures and reads
  named members through the casts: \<open>c_member c view name\<close> is what the member \<open>name\<close>
  reads through the cast \<open>view\<close>.
\<close>

datatype comp_view =
    As_host | As_dai | As_volume | As_process | As_src | As_asrc | As_tone

record sof_ipc_comp_config =
  cc_hdr_size :: u32
  cc_periods_sink :: u32
  cc_periods_source :: u32
  cc_frame_fmt :: u32
  cc_xrun_action :: u32

record sof_ipc_comp =
  c_hdr_size :: u32
  c_id :: u32
  c_type :: sof_comp_type
  c_pipeline_id :: u32
  c_core :: u32
  c_ext_data_length :: u32
  c_config :: sof_ipc_comp_config
  c_member :: "comp_view \<Rightarrow> string \<Rightarrow> u32"
  c_ext_data :: "8 word list"

text \<open>
  \<^verbatim>\<open>union ipc_config_specific\<close>: it is zeroed, then the members of one variant are
  written. Each variant has the members \<^verbatim>\<open>comp_specific_builder\<close> writes (a test bench
  build with \<^verbatim>\<open>CONFIG_LIBRARY\<close>, which maps hosts and DAIs to a file, is not covered).
\<close>

datatype ipc_config_specific =
    Config_zeroed
  | Config_host (host_direction: u32) (host_no_irq: u32) (host_dmac_config: u32)
  | Config_dai (dai_dai_index: u32) (dai_direction: u32) (dai_type: u32)
  | Config_volume (volume_channels: u32) (volume_initial_ramp: u32) (volume_max_value: u32)
      (volume_min_value: u32) (volume_ramp: u32)
  | Config_src (src_rate_mask: u32) (src_sink_rate: u32) (src_source_rate: u32)
  | Config_tone (tone_ampl_mult: u32) (tone_amplitude: u32) (tone_freq_mult: u32)
      (tone_frequency: u32) (tone_length: u32) (tone_period: u32) (tone_ramp_step: u32)
      (tone_repeats: u32) (tone_sample_rate: u32)
  | Config_asrc (asrc_source_rate: u32) (asrc_sink_rate: u32) (asrc_asynchronous_mode: u32)
      (asrc_operation_mode: u32)
  | Config_process (process_type: u32) (process_size: u32) (process_data: u32)

text \<open>A registered driver: its type, its UUID and its \<^verbatim>\<open>ops.create\<close>.\<close>

record comp_driver =
  drv_type :: sof_comp_type
  drv_uid :: "8 word list"
  drv_create :: "comp_ipc_config \<Rightarrow> ipc_config_specific \<Rightarrow> comp_dev option"


subsection \<open>Collaborators outside helper.c\<close>

text \<open>
  What helper.c calls and does not define, where the outcome is not decided by the
  registry: the core the call runs on (\<^verbatim>\<open>cpu_get_id\<close>), the hand-over to another core
  (\<^verbatim>\<open>ipc_process_on_core\<close>: its return value and what the other core has done to the
  shared structures when it returns), the allocator (the address of the next object,
  and whether an allocation fails), the two pipeline configuration steps (their return
  value and what they write to the pipeline), whether promoting a component to shared
  form fails, the error of the driver-level connection step (0 for none), the driver
  table, and two structure sizes.
\<close>

record env =
  cpu_id :: u32
  ipc_process_on_core :: "u32 \<Rightarrow> ipc \<Rightarrow> int \<times> ipc"
  new_addr :: "ipc \<Rightarrow> addr"
  pipeline_new_fails :: bool
  rzalloc_fails :: bool
  pipeline_schedule_config ::
    "pipeline \<Rightarrow> u32 \<Rightarrow> u32 \<Rightarrow> u32 \<Rightarrow> u32 \<Rightarrow> u32 \<Rightarrow> u32 \<Rightarrow> int \<times> pipeline"
  pipeline_xrun_set_limit :: "pipeline \<Rightarrow> u32 \<Rightarrow> int \<times> pipeline"
  comp_make_shared_fails :: bool
  pipeline_connect_error :: int
  drivers :: "comp_driver list"
  sizeof_sof_ipc_comp :: nat
  sizeof_sof_ipc_comp_config :: nat

definition cpu_is_me :: "env \<Rightarrow> u32 \<Rightarrow> bool" where
  "cpu_is_me e core \<longleftrightarrow> core = cpu_id e"

definition UUID_SIZE :: nat where
  "UUID_SIZE = 16"

subsection \<open>Pointers and lists\<close>

text \<open>Reading a pointer at a type: a fault when it is null or the object is of another kind.\<close>

definition deref_comp :: "ipc \<Rightarrow> addr option \<Rightarrow> fault + (addr \<times> comp_dev)" where
  "deref_comp s p =
     (case p of
        None \<Rightarrow> Inl Null_pointer
      | Some a \<Rightarrow> (case heap s a of Some (Comp c) \<Rightarrow> Inr (a, c) | _ \<Rightarrow> Inl Bad_pointer))"

definition deref_buf :: "ipc \<Rightarrow> addr option \<Rightarrow> fault + (addr \<times> comp_buffer)" where
  "deref_buf s p =
     (case p of
        None \<Rightarrow> Inl Null_pointer
      | Some a \<Rightarrow> (case heap s a of Some (Buf b) \<Rightarrow> Inr (a, b) | _ \<Rightarrow> Inl Bad_pointer))"

definition deref_pipe :: "ipc \<Rightarrow> addr option \<Rightarrow> fault + (addr \<times> pipeline)" where
  "deref_pipe s p =
     (case p of
        None \<Rightarrow> Inl Null_pointer
      | Some a \<Rightarrow> (case heap s a of Some (Pipe q) \<Rightarrow> Inr (a, q) | _ \<Rightarrow> Inl Bad_pointer))"

text \<open>The position of the first element a list walk stops at, and \<^verbatim>\<open>list_item_del\<close>.\<close>

fun find_pos :: "('a \<Rightarrow> bool) \<Rightarrow> 'a list \<Rightarrow> nat option" where
  "find_pos P [] = None"
| "find_pos P (x # xs) = (if P x then Some 0 else map_option Suc (find_pos P xs))"


subsection \<open>Registry lookups\<close>

text \<open>
  Modelled from the spec: \<^verbatim>\<open>ipc_get_comp_by_id\<close> is not among the files. The registry
  is an insertion-ordered collection whose entries are looked up by id: the first entry
  with the id, whatever its kind.
\<close>

definition ipc_get_comp_by_id :: "ipc \<Rightarrow> u32 \<Rightarrow> nat option" where
  "ipc_get_comp_by_id s i = find_pos (\<lambda>icd. icd_id icd = i) (comp_list s)"

text \<open>
  \<^verbatim>\<open>ipc_comp_pipe_id\<close>, with \<^verbatim>\<open>dev_comp_pipe_id(cd)\<close> the pipeline id of the component's
  configuration. The result is an \<^verbatim>\<open>int32_t\<close>.
\<close>

definition ipc_comp_pipe_id :: "ipc \<Rightarrow> ipc_comp_dev \<Rightarrow> fault + 32 word" where
  "ipc_comp_pipe_id s icd =
     (case icd_type icd of
        COMP_TYPE_COMPONENT \<Rightarrow>
          (case deref_comp s (icd_ptr icd) of
             Inl f \<Rightarrow> Inl f | Inr (a, c) \<Rightarrow> Inr (cfg_pipeline_id (cd_ipc_config c)))
      | COMP_TYPE_BUFFER \<Rightarrow>
          (case deref_buf s (icd_ptr icd) of
             Inl f \<Rightarrow> Inl f | Inr (a, b) \<Rightarrow> Inr (cb_pipeline_id b))
      | COMP_TYPE_PIPELINE \<Rightarrow>
          (case deref_pipe s (icd_ptr icd) of
             Inl f \<Rightarrow> Inl f | Inr (a, q) \<Rightarrow> Inr (p_pipeline_id q))
      | COMP_TYPE_UNKNOWN \<Rightarrow> Inr (word_of_int (- EINVAL)))"

text \<open>
  Modelled from the spec: \<^verbatim>\<open>ipc_get_comp_by_ppl_id\<close> is not among the files. Entries
  are looked up by (type, pipeline-id): the first entry of the type whose
  \<^verbatim>\<open>ipc_comp_pipe_id\<close> is the pipeline id.
\<close>

fun get_comp_by_ppl_id ::
  "ipc \<Rightarrow> ipc_type \<Rightarrow> u32 \<Rightarrow> ipc_comp_dev list \<Rightarrow> fault + nat option" where
  "get_comp_by_ppl_id s t ppl_id [] = Inr None"
| "get_comp_by_ppl_id s t ppl_id (icd # rest) =
     (if icd_type icd \<noteq> t then map_sum id (map_option Suc) (get_comp_by_ppl_id s t ppl_id rest)
      else case ipc_comp_pipe_id s icd of
             Inl f \<Rightarrow> Inl f
           | Inr pid \<Rightarrow>
               if pid = ppl_id then Inr (Some 0)
               else map_sum id (map_option Suc) (get_comp_by_ppl_id s t ppl_id rest))"

definition ipc_get_comp_by_ppl_id :: "ipc \<Rightarrow> ipc_type \<Rightarrow> u32 \<Rightarrow> fault + nat option" where
  "ipc_get_comp_by_ppl_id s t ppl_id = get_comp_by_ppl_id s t ppl_id (comp_list s)"

text \<open>
  Modelled from the spec: \<^verbatim>\<open>ipc_get_ppl_src_comp\<close> and \<^verbatim>\<open>ipc_get_ppl_sink_comp\<close> are
  not among the files. They resolve the components at the extremities of the pipeline's
  buffer chain: the first component entry of the pipeline with no buffer that leads,
  upstream (for the source) or downstream (for the sink), to a component of the same
  pipeline. An entry whose pointer does not lead to a component is passed over.
\<close>

definition comp_on_pipeline :: "ipc \<Rightarrow> u32 \<Rightarrow> addr option \<Rightarrow> bool" where
  "comp_on_pipeline s ppl_id p =
     (case deref_comp s p of
        Inl f \<Rightarrow> False
      | Inr (a, c) \<Rightarrow> cfg_pipeline_id (cd_ipc_config c) = ppl_id)"

definition leads_upstream :: "ipc \<Rightarrow> u32 \<Rightarrow> addr \<Rightarrow> bool" where
  "leads_upstream s ppl_id b =
     (case heap s b of Some (Buf cb) \<Rightarrow> comp_on_pipeline s ppl_id (cb_source cb) | _ \<Rightarrow> False)"

definition leads_downstream :: "ipc \<Rightarrow> u32 \<Rightarrow> addr \<Rightarrow> bool" where
  "leads_downstream s ppl_id b =
     (case heap s b of Some (Buf cb) \<Rightarrow> comp_on_pipeline s ppl_id (cb_sink cb) | _ \<Rightarrow> False)"

definition ipc_get_ppl_src_comp :: "ipc \<Rightarrow> u32 \<Rightarrow> nat option" where
  "ipc_get_ppl_src_comp s ppl_id =
     find_pos
       (\<lambda>icd. icd_type icd = COMP_TYPE_COMPONENT \<and>
          (case deref_comp s (icd_ptr icd) of
             Inl f \<Rightarrow> False
           | Inr (a, c) \<Rightarrow> cfg_pipeline_id (cd_ipc_config c) = ppl_id \<and>
                      \<not> list_ex (leads_upstream s ppl_id) (cd_bsource_list c)))
       (comp_list s)"

definition ipc_get_ppl_sink_comp :: "ipc \<Rightarrow> u32 \<Rightarrow> nat option" where
  "ipc_get_ppl_sink_comp s ppl_id =
     find_pos
       (\<lambda>icd. icd_type icd = COMP_TYPE_COMPONENT \<and>
          (case deref_comp s (icd_ptr icd) of
             Inl f \<Rightarrow> False
           | Inr (a, c) \<Rightarrow> cfg_pipeline_id (cd_ipc_config c) = ppl_id \<and>
                      \<not> list_ex (leads_downstream s ppl_id) (cd_bsink_list c)))
       (comp_list s)"


subsection \<open>Pipelines\<close>

text \<open>
  Modelled from the spec: \<^verbatim>\<open>pipeline_new\<close>, \<^verbatim>\<open>pipeline_free\<close> and
  \<^verbatim>\<open>pipeline_complete\<close> are not among the files. A new pipeline holds its pipeline id,
  its priority and its id, and its three references are absent; freeing releases its
  storage; completing binds the source and the sink reference.
\<close>

definition blank_pipeline :: "u32 \<Rightarrow> u32 \<Rightarrow> u32 \<Rightarrow> pipeline" where
  "blank_pipeline pipeline_id priority comp_id =
     \<lparr>p_pipeline_id = pipeline_id, p_priority = priority, p_comp_id = comp_id,
      p_sched_id = 0, p_core = 0, p_period = 0, p_period_mips = 0,
      p_frames_per_sched = 0, p_time_domain = 0, p_xrun_limit_usecs = 0,
      p_source_comp = None, p_sink_comp = None, p_sched_comp = None\<rparr>"

definition pipeline_new :: "env \<Rightarrow> ipc \<Rightarrow> u32 \<Rightarrow> u32 \<Rightarrow> u32 \<Rightarrow> addr option \<times> ipc" where
  "pipeline_new e s pipeline_id priority comp_id =
     (if pipeline_new_fails e then (None, s)
      else
        (let a = new_addr e s
         in (Some a, s\<lparr>heap := (heap s)(a \<mapsto> Pipe (blank_pipeline pipeline_id priority comp_id))\<rparr>)))"

definition pipeline_free :: "ipc \<Rightarrow> addr \<Rightarrow> int \<times> ipc" where
  "pipeline_free s a = (0, s\<lparr>heap := (heap s)(a := None)\<rparr>)"

definition pipeline_complete ::
  "ipc \<Rightarrow> addr option \<Rightarrow> addr option \<Rightarrow> addr option \<Rightarrow> fault + (int \<times> ipc)" where
  "pipeline_complete s p source sink =
     (case deref_pipe s p of
        Inl f \<Rightarrow> Inl f
      | Inr (a, q) \<Rightarrow>
          Inr (0, s\<lparr>heap := (heap s)(a \<mapsto> Pipe (q\<lparr>p_source_comp := source, p_sink_comp := sink\<rparr>))\<rparr>))"

text \<open>A configuration step of the environment, run on the pipeline behind a pointer.\<close>

definition on_pipeline ::
  "ipc \<Rightarrow> addr option \<Rightarrow> (pipeline \<Rightarrow> int \<times> pipeline) \<Rightarrow> fault + (int \<times> ipc)" where
  "on_pipeline s p step =
     (case deref_pipe s p of
        Inl f \<Rightarrow> Inl f
      | Inr (a, q) \<Rightarrow>
          (let (ret, q1) = step q in Inr (ret, s\<lparr>heap := (heap s)(a \<mapsto> Pipe q1)\<rparr>)))"

text \<open>\<^verbatim>\<open>ipc_pipeline_new\<close>.\<close>

definition ipc_pipeline_new :: "env \<Rightarrow> ipc \<Rightarrow> sof_ipc_pipe_new \<Rightarrow> fault + (int \<times> ipc)" where
  "ipc_pipeline_new e s pipe_desc =
     (case ipc_get_comp_by_id s (pn_comp_id pipe_desc) of
        Some ipc_pipe \<Rightarrow> Inr (- EINVAL, s)
      | None \<Rightarrow>
     (case ipc_get_comp_by_ppl_id s COMP_TYPE_PIPELINE (pn_pipeline_id pipe_desc) of
        Inl f \<Rightarrow> Inl f
      | Inr (Some ipc_pipe) \<Rightarrow> Inr (- EINVAL, s)
      | Inr None \<Rightarrow>
     (case pipeline_new e s (pn_pipeline_id pipe_desc) (pn_priority pipe_desc)
             (pn_comp_id pipe_desc) of
        (None, s1) \<Rightarrow> Inr (- ENOMEM, s1)
      | (Some pipe, s1) \<Rightarrow>
     (case on_pipeline s1 (Some pipe)
             (\<lambda>q. pipeline_schedule_config e q (pn_sched_id pipe_desc) (pn_core pipe_desc)
                     (pn_period pipe_desc) (pn_period_mips pipe_desc)
                     (pn_frames_per_sched pipe_desc) (pn_time_domain pipe_desc)) of
        Inl f \<Rightarrow> Inl f
      | Inr (ret, s2) \<Rightarrow>
          if ret \<noteq> 0 then Inr (ret, s2)
          else
     (case on_pipeline s2 (Some pipe)
             (\<lambda>q. pipeline_xrun_set_limit e q (pn_xrun_limit_usecs pipe_desc)) of
        Inl f \<Rightarrow> Inl f
      | Inr (ret, s3) \<Rightarrow>
          if ret \<noteq> 0 then Inr (ret, s3)
          else if rzalloc_fails e then Inr (- ENOMEM, snd (pipeline_free s3 pipe))
          else
            Inr (0, s3\<lparr>comp_list := comp_list s3 @
                     [\<lparr>icd_type = COMP_TYPE_PIPELINE, icd_core = pn_core pipe_desc,
                       icd_id = pn_comp_id pipe_desc, icd_ptr = Some pipe\<rparr>]\<rparr>))))))"

text \<open>
  \<^verbatim>\<open>ipc_pipeline_complete\<close>. The scheduling component is stored in the pipeline before
  the two endpoints are looked up.
\<close>

definition ipc_pipeline_complete :: "env \<Rightarrow> ipc \<Rightarrow> u32 \<Rightarrow> fault + (int \<times> ipc)" where
  "ipc_pipeline_complete e s comp_id =
     (case ipc_get_comp_by_id s comp_id of
        None \<Rightarrow> Inr (- EINVAL, s)
      | Some pi \<Rightarrow>
     (let ipc_pipe = comp_list s ! pi in
      if \<not> cpu_is_me e (icd_core ipc_pipe)
      then Inr (ipc_process_on_core e (icd_core ipc_pipe) s)
      else
     (case deref_pipe s (icd_ptr ipc_pipe) of
        Inl f \<Rightarrow> Inl f
      | Inr (pa, p) \<Rightarrow>
     (case ipc_get_comp_by_id s (p_sched_id p) of
        None \<Rightarrow> Inr (- EINVAL, s)
      | Some si \<Rightarrow>
     (let icd = comp_list s ! si in
      if icd_type icd \<noteq> COMP_TYPE_COMPONENT then Inr (- EINVAL, s)
      else if icd_core icd \<noteq> icd_core ipc_pipe then Inr (- EINVAL, s)
      else
     (let s1 = s\<lparr>heap := (heap s)(pa \<mapsto> Pipe (p\<lparr>p_sched_comp := icd_ptr icd\<rparr>))\<rparr>;
          pipeline_id = p_pipeline_id p
      in case ipc_get_ppl_src_comp s1 pipeline_id of
           None \<Rightarrow> Inr (- EINVAL, s1)
         | Some ipc_ppl_source \<Rightarrow>
      (case ipc_get_ppl_sink_comp s1 pipeline_id of
           None \<Rightarrow> Inr (- EINVAL, s1)
         | Some ipc_ppl_sink \<Rightarrow>
             pipeline_complete s1 (icd_ptr ipc_pipe)
               (icd_ptr (comp_list s1 ! ipc_ppl_source))
               (icd_ptr (comp_list s1 ! ipc_ppl_sink)))))))))"


subsection \<open>Edges between components and buffers\<close>

datatype conn_dir = PPL_CONN_DIR_COMP_TO_BUFFER | PPL_CONN_DIR_BUFFER_TO_COMP

text \<open>
  Modelled from the spec: \<^verbatim>\<open>pipeline_connect\<close>, \<^verbatim>\<open>pipeline_disconnect\<close> and
  \<^verbatim>\<open>buffer_free\<close> are not among the files. Connecting establishes the edge (the
  component takes the buffer's source or sink slot, per direction, and the buffer joins
  the component's list on that side) and returns success, or a driver-level connection
  error, in which case no edge is established. Disconnecting removes the edge. Freeing a
  buffer releases its storage.
\<close>

definition pipeline_connect ::
  "env \<Rightarrow> ipc \<Rightarrow> addr option \<Rightarrow> addr option \<Rightarrow> conn_dir \<Rightarrow> fault + (int \<times> ipc)" where
  "pipeline_connect e s cdev buf dir =
     (case deref_comp s cdev of
        Inl f \<Rightarrow> Inl f
      | Inr (ca, c) \<Rightarrow>
     (case deref_buf s buf of
        Inl f \<Rightarrow> Inl f
      | Inr (ba, b) \<Rightarrow>
          if pipeline_connect_error e \<noteq> 0 then Inr (pipeline_connect_error e, s)
          else
            (case dir of
               PPL_CONN_DIR_COMP_TO_BUFFER \<Rightarrow>
                 Inr (0, s\<lparr>heap := (heap s)
                        (ca \<mapsto> Comp (c\<lparr>cd_bsink_list := ba # cd_bsink_list c\<rparr>),
                         ba \<mapsto> Buf (b\<lparr>cb_source := Some ca\<rparr>))\<rparr>)
             | PPL_CONN_DIR_BUFFER_TO_COMP \<Rightarrow>
                 Inr (0, s\<lparr>heap := (heap s)
                        (ca \<mapsto> Comp (c\<lparr>cd_bsource_list := ba # cd_bsource_list c\<rparr>),
                         ba \<mapsto> Buf (b\<lparr>cb_sink := Some ca\<rparr>))\<rparr>))))"

definition on_comp :: "ipc \<Rightarrow> addr \<Rightarrow> (comp_dev \<Rightarrow> comp_dev) \<Rightarrow> ipc" where
  "on_comp s a f =
     (case heap s a of Some (Comp c) \<Rightarrow> s\<lparr>heap := (heap s)(a \<mapsto> Comp (f c))\<rparr> | _ \<Rightarrow> s)"







subsection \<open>Connection\<close>

text \<open>
  Modelled from the spec: \<^verbatim>\<open>comp_make_shared\<close> is not among the files. It promotes the
  component to shared form and returns it, or returns null when the promotion fails.
\<close>

definition comp_make_shared :: "env \<Rightarrow> ipc \<Rightarrow> addr \<Rightarrow> addr option \<times> ipc" where
  "comp_make_shared e s a =
     (if comp_make_shared_fails e then (None, s)
      else (Some a, on_comp s a (\<lambda>c. c\<lparr>cd_is_shared := True\<rparr>)))"

text \<open>
  The block both connect functions run when the buffer's core is not the component's:
  the buffer is marked, and a component not yet shared is promoted, the entry taking the
  pointer \<^verbatim>\<open>comp_make_shared\<close> returns. The result is the error to return, if any.
  The cache operations have no counterpart here. \<open>ci\<close> and \<open>bi\<close> are the entries.
\<close>

definition connect_between_cores ::
  "env \<Rightarrow> ipc \<Rightarrow> nat \<Rightarrow> nat \<Rightarrow> fault + (int option \<times> ipc)" where
  "connect_between_cores e s ci bi =
     (case deref_buf s (icd_ptr (comp_list s ! bi)) of
        Inl f \<Rightarrow> Inl f
      | Inr (ba, cb) \<Rightarrow>
     (let s1 = s\<lparr>heap := (heap s)(ba \<mapsto> Buf (cb\<lparr>cb_inter_core := True\<rparr>))\<rparr>
      in case deref_comp s1 (icd_ptr (comp_list s1 ! ci)) of
           Inl f \<Rightarrow> Inl f
         | Inr (ca, c) \<Rightarrow>
             if \<not> cd_is_shared c then
               (let (cd, s2) = comp_make_shared e s1 ca;
                    s3 = s2\<lparr>comp_list := (comp_list s2)[ci := (comp_list s2 ! ci)\<lparr>icd_ptr := cd\<rparr>]\<rparr>
                in if cd = None then Inr (Some (- ENOMEM), s3) else Inr (None, s3))
             else Inr (None, s1)))"

text \<open>\<^verbatim>\<open>ipc_comp_to_buffer_connect\<close> and \<^verbatim>\<open>ipc_buffer_to_comp_connect\<close>.\<close>

definition ipc_comp_to_buffer_connect :: "env \<Rightarrow> ipc \<Rightarrow> nat \<Rightarrow> nat \<Rightarrow> fault + (int \<times> ipc)" where
  "ipc_comp_to_buffer_connect e s icd_comp icd_buf =
     (if \<not> cpu_is_me e (icd_core (comp_list s ! icd_comp))
      then Inr (ipc_process_on_core e (icd_core (comp_list s ! icd_comp)) s)
      else
        (case (if icd_core (comp_list s ! icd_buf) \<noteq> icd_core (comp_list s ! icd_comp)
               then connect_between_cores e s icd_comp icd_buf else Inr (None, s)) of
           Inl f \<Rightarrow> Inl f
         | Inr (Some err, s1) \<Rightarrow> Inr (err, s1)
         | Inr (None, s1) \<Rightarrow>
             pipeline_connect e s1 (icd_ptr (comp_list s1 ! icd_comp))
               (icd_ptr (comp_list s1 ! icd_buf)) PPL_CONN_DIR_COMP_TO_BUFFER))"

definition ipc_buffer_to_comp_connect :: "env \<Rightarrow> ipc \<Rightarrow> nat \<Rightarrow> nat \<Rightarrow> fault + (int \<times> ipc)" where
  "ipc_buffer_to_comp_connect e s icd_buf icd_comp =
     (if \<not> cpu_is_me e (icd_core (comp_list s ! icd_comp))
      then Inr (ipc_process_on_core e (icd_core (comp_list s ! icd_comp)) s)
      else
        (case (if icd_core (comp_list s ! icd_buf) \<noteq> icd_core (comp_list s ! icd_comp)
               then connect_between_cores e s icd_comp icd_buf else Inr (None, s)) of
           Inl f \<Rightarrow> Inl f
         | Inr (Some err, s1) \<Rightarrow> Inr (err, s1)
         | Inr (None, s1) \<Rightarrow>
             pipeline_connect e s1 (icd_ptr (comp_list s1 ! icd_comp))
               (icd_ptr (comp_list s1 ! icd_buf)) PPL_CONN_DIR_BUFFER_TO_COMP))"

text \<open>\<^verbatim>\<open>ipc_comp_connect\<close>.\<close>

definition ipc_comp_connect ::
  "env \<Rightarrow> ipc \<Rightarrow> sof_ipc_pipe_comp_connect \<Rightarrow> fault + (int \<times> ipc)" where
  "ipc_comp_connect e s connect =
     (case ipc_get_comp_by_id s (pc_source_id connect) of
        None \<Rightarrow> Inr (- EINVAL, s)
      | Some icd_source \<Rightarrow>
     (case ipc_get_comp_by_id s (pc_sink_id connect) of
        None \<Rightarrow> Inr (- EINVAL, s)
      | Some icd_sink \<Rightarrow>
          if icd_type (comp_list s ! icd_source) = COMP_TYPE_BUFFER \<and>
             icd_type (comp_list s ! icd_sink) = COMP_TYPE_COMPONENT
          then ipc_buffer_to_comp_connect e s icd_source icd_sink
          else if icd_type (comp_list s ! icd_source) = COMP_TYPE_COMPONENT \<and>
                  icd_type (comp_list s ! icd_sink) = COMP_TYPE_BUFFER
          then ipc_comp_to_buffer_connect e s icd_source icd_sink
          else Inr (- EINVAL, s)))"


subsection \<open>Component creation\<close>

text \<open>
  \<^verbatim>\<open>get_drv\<close>: by type when the message has no extended data, otherwise by the UUID
  that starts the extended data, after the two size checks. The sizes are 32-bit
  (\<^verbatim>\<open>size_t\<close> on the DSP), so the sum wraps.
\<close>

definition get_drv :: "env \<Rightarrow> sof_ipc_comp \<Rightarrow> comp_driver option" where
  "get_drv e c =
     (if c_ext_data_length c = 0
      then find (\<lambda>drv. drv_type drv = c_type c) (drivers e)
      else if c_hdr_size c < word_of_nat (sizeof_sof_ipc_comp e) + c_ext_data_length c then None
      else if unat (c_ext_data_length c) < UUID_SIZE then None
      else find (\<lambda>drv. take UUID_SIZE (drv_uid drv) = take UUID_SIZE (c_ext_data c)) (drivers e))"

text \<open>\<^verbatim>\<open>comp_common_builder\<close>: the configuration is zeroed first.\<close>

definition comp_common_builder :: "sof_ipc_comp \<Rightarrow> comp_ipc_config" where
  "comp_common_builder c =
     (let config = \<lparr>cfg_core = c_core c, cfg_id = c_id c, cfg_pipeline_id = c_pipeline_id c,
                     cfg_type = c_type c, cfg_frame_fmt = 0, cfg_periods_sink = 0,
                     cfg_periods_source = 0, cfg_xrun_action = 0\<rparr>
      in if c_type c \<noteq> SOF_COMP_BUFFER
         then config\<lparr>cfg_frame_fmt := cc_frame_fmt (c_config c),
                     cfg_periods_sink := cc_periods_sink (c_config c),
                     cfg_periods_source := cc_periods_source (c_config c),
                     cfg_xrun_action := cc_xrun_action (c_config c)\<rparr>
         else config)"

text \<open>
  \<^verbatim>\<open>comp_specific_builder\<close>: one branch per \<^verbatim>\<open>case\<close> group of the switch, each copying
  the members the code names, through the cast the code uses. The ASRC branch reads the
  two rates through the SRC cast. \<^verbatim>\<open>process.data\<close> is the address of the data in the
  message. Any other type leaves the union zeroed.
\<close>

definition process_config :: "sof_ipc_comp \<Rightarrow> ipc_config_specific" where
  "process_config c =
     Config_process (c_member c As_process ''type'') (c_member c As_process ''size'')
       (c_member c As_process ''data'')"

definition host_config :: "sof_ipc_comp \<Rightarrow> ipc_config_specific" where
  "host_config c =
     Config_host (c_member c As_host ''direction'') (c_member c As_host ''no_irq'')
       (c_member c As_host ''dmac_config'')"

definition dai_config :: "sof_ipc_comp \<Rightarrow> ipc_config_specific" where
  "dai_config c =
     Config_dai (c_member c As_dai ''dai_index'') (c_member c As_dai ''direction'')
       (c_member c As_dai ''type'')"

definition comp_specific_builder :: "sof_ipc_comp \<Rightarrow> ipc_config_specific" where
  "comp_specific_builder c =
     (case c_type c of
        SOF_COMP_HOST \<Rightarrow> host_config c
      | SOF_COMP_SG_HOST \<Rightarrow> host_config c
      | SOF_COMP_DAI \<Rightarrow> dai_config c
      | SOF_COMP_SG_DAI \<Rightarrow> dai_config c
      | SOF_COMP_VOLUME \<Rightarrow>
          Config_volume (c_member c As_volume ''channels'')
            (c_member c As_volume ''initial_ramp'') (c_member c As_volume ''max_value'')
            (c_member c As_volume ''min_value'') (c_member c As_volume ''ramp'')
      | SOF_COMP_SRC \<Rightarrow>
          Config_src (c_member c As_src ''rate_mask'') (c_member c As_src ''sink_rate'')
            (c_member c As_src ''source_rate'')
      | SOF_COMP_TONE \<Rightarrow>
          Config_tone (c_member c As_tone ''ampl_mult'') (c_member c As_tone ''amplitude'')
            (c_member c As_tone ''freq_mult'') (c_member c As_tone ''frequency'')
            (c_member c As_tone ''length'') (c_member c As_tone ''period'')
            (c_member c As_tone ''ramp_step'') (c_member c As_tone ''repeats'')
            (c_member c As_tone ''sample_rate'')
      | SOF_COMP_ASRC \<Rightarrow>
          Config_asrc (c_member c As_src ''source_rate'') (c_member c As_src ''sink_rate'')
            (c_member c As_asrc ''asynchronous_mode'')
            (c_member c As_asrc ''operation_mode'')
      | SOF_COMP_EQ_IIR \<Rightarrow> process_config c
      | SOF_COMP_EQ_FIR \<Rightarrow> process_config c
      | SOF_COMP_KEYWORD_DETECT \<Rightarrow> process_config c
      | SOF_COMP_KPB \<Rightarrow> process_config c
      | SOF_COMP_SELECTOR \<Rightarrow> process_config c
      | SOF_COMP_DEMUX \<Rightarrow> process_config c
      | SOF_COMP_MUX \<Rightarrow> process_config c
      | SOF_COMP_DCBLOCK \<Rightarrow> process_config c
      | SOF_COMP_SMART_AMP \<Rightarrow> process_config c
      | SOF_COMP_CODEC_ADAPTOR \<Rightarrow> process_config c
      | _ \<Rightarrow> Config_zeroed)"

text \<open>
  \<^verbatim>\<open>comp_new\<close>. \<^verbatim>\<open>IPC_IS_SIZE_INVALID\<close> compares the size in the configuration's
  header with the size of the structure. The driver's \<^verbatim>\<open>create\<close> returns the new
  component or null; the component lives where the allocator placed it, and its two
  buffer lists start empty.
\<close>

definition comp_new :: "env \<Rightarrow> ipc \<Rightarrow> sof_ipc_comp \<Rightarrow> addr option \<times> ipc" where
  "comp_new e s c =
     (case get_drv e c of
        None \<Rightarrow> (None, s)
      | Some drv \<Rightarrow>
          if unat (cc_hdr_size (c_config c)) \<noteq> sizeof_sof_ipc_comp_config e then (None, s)
          else
            (case drv_create drv (comp_common_builder c) (comp_specific_builder c) of
               None \<Rightarrow> (None, s)
             | Some cdev \<Rightarrow>
                 (let a = new_addr e s
                  in (Some a, s\<lparr>heap := (heap s)
                        (a \<mapsto> Comp (cdev\<lparr>cd_bsource_list := [], cd_bsink_list := []\<rparr>))\<rparr>))))"

text \<open>
  \<^verbatim>\<open>ipc_comp_new\<close>; \<open>cc\<close> is \<^verbatim>\<open>CONFIG_CORE_COUNT\<close>. The core check comes first.
\<close>

definition ipc_comp_new :: "nat \<Rightarrow> env \<Rightarrow> ipc \<Rightarrow> sof_ipc_comp \<Rightarrow> int \<times> ipc" where
  "ipc_comp_new cc e s c =
     (if cc \<le> unat (c_core c) then (- EINVAL, s)
      else
        (case ipc_get_comp_by_id s (c_id c) of
           Some icd \<Rightarrow> (- EINVAL, s)
         | None \<Rightarrow>
        (case comp_new e s c of
           (None, s1) \<Rightarrow> (- EINVAL, s1)
         | (Some cd, s1) \<Rightarrow>
             if rzalloc_fails e then (- ENOMEM, s1\<lparr>heap := (heap s1)(cd := None)\<rparr>)
             else
               (0, s1\<lparr>comp_list := comp_list s1 @
                      [\<lparr>icd_type = COMP_TYPE_COMPONENT, icd_core = c_core c,
                        icd_id = c_id c, icd_ptr = Some cd\<rparr>]\<rparr>))))"

subsection \<open>Concrete inputs for the registry\<close>

text \<open>
  Concrete inputs: a component, an environment where every collaborator succeeds (the
  call runs on core 0), a registry with two components of pipeline 5 and a buffer from
  the first to the second, and two creation messages.
\<close>

definition demo_comp :: "u32 \<Rightarrow> comp_state \<Rightarrow> addr list \<Rightarrow> addr list \<Rightarrow> comp_dev" where
  "demo_comp ppl st bsource bsink =
     \<lparr>cd_ipc_config =
        \<lparr>cfg_core = 0, cfg_id = 0, cfg_pipeline_id = ppl, cfg_type = SOF_COMP_VOLUME,
         cfg_frame_fmt = 0, cfg_periods_sink = 0, cfg_periods_source = 0, cfg_xrun_action = 0\<rparr>,
      cd_state = st, cd_is_shared = False, cd_pipeline = None,
      cd_bsource_list = bsource, cd_bsink_list = bsink\<rparr>"

definition demo_env :: env where
  "demo_env =
     \<lparr>cpu_id = 0,
      ipc_process_on_core = (\<lambda>core s. (1, s)),
      new_addr = (\<lambda>s. 40),
      pipeline_new_fails = False,
      rzalloc_fails = False,
      pipeline_schedule_config =
        (\<lambda>q sched_id core period mips frames time_domain.
           (0, q\<lparr>p_sched_id := sched_id, p_core := core, p_period := period,
                  p_period_mips := mips, p_frames_per_sched := frames,
                  p_time_domain := time_domain\<rparr>)),
      pipeline_xrun_set_limit = (\<lambda>q limit. (0, q\<lparr>p_xrun_limit_usecs := limit\<rparr>)),
      comp_make_shared_fails = False,
      pipeline_connect_error = 0,
      drivers =
        [\<lparr>drv_type = SOF_COMP_VOLUME, drv_uid = replicate 16 0,
          drv_create = (\<lambda>config spec.
             Some \<lparr>cd_ipc_config = config, cd_state = COMP_STATE_READY, cd_is_shared = False,
                   cd_pipeline = None, cd_bsource_list = [], cd_bsink_list = []\<rparr>)\<rparr>],
      sizeof_sof_ipc_comp = 28,
      sizeof_sof_ipc_comp_config = 32\<rparr>"

definition demo_ipc :: "comp_state \<Rightarrow> comp_state \<Rightarrow> u32 \<Rightarrow> ipc" where
  "demo_ipc source_state sink_state buffer_core =
     \<lparr>comp_list =
        [\<lparr>icd_type = COMP_TYPE_COMPONENT, icd_core = 0, icd_id = 1, icd_ptr = Some 10\<rparr>,
         \<lparr>icd_type = COMP_TYPE_COMPONENT, icd_core = 0, icd_id = 2, icd_ptr = Some 20\<rparr>,
         \<lparr>icd_type = COMP_TYPE_BUFFER, icd_core = buffer_core, icd_id = 10, icd_ptr = Some 30\<rparr>],
      heap = [10 \<mapsto> Comp (demo_comp 5 source_state [] [30]),
              20 \<mapsto> Comp (demo_comp 5 sink_state [30] []),
              30 \<mapsto> Buf \<lparr>cb_id = 10, cb_pipeline_id = 5, cb_core = buffer_core,
                         cb_inter_core = False, cb_source = Some 10, cb_sink = Some 20\<rparr>]\<rparr>"

definition demo_comp_msg :: "u32 \<Rightarrow> sof_ipc_comp" where
  "demo_comp_msg core =
     \<lparr>c_hdr_size = 60, c_id = 3, c_type = SOF_COMP_VOLUME, c_pipeline_id = 5, c_core = core,
      c_ext_data_length = 0,
      c_config = \<lparr>cc_hdr_size = 32, cc_periods_sink = 2, cc_periods_source = 2,
                  cc_frame_fmt = 0, cc_xrun_action = 0\<rparr>,
      c_member = (\<lambda>view name. 0), c_ext_data = []\<rparr>"

definition demo_pipe_msg :: sof_ipc_pipe_new where
  "demo_pipe_msg =
     \<lparr>pn_comp_id = 4, pn_pipeline_id = 5, pn_sched_id = 1, pn_core = 0, pn_period = 1000,
      pn_priority = 0, pn_period_mips = 0, pn_frames_per_sched = 48,
      pn_xrun_limit_usecs = 500, pn_time_domain = 0\<rparr>"

text \<open>
  An environment whose scheduling configuration step fails, and a registry with
  pipeline 7 (entry id 5), scheduled by component 1, which belongs to pipeline 9:
  pipeline 7 has no component of its own yet.
\<close>

definition failing_config_env :: env where
  "failing_config_env =
     demo_env\<lparr>pipeline_schedule_config :=
        (\<lambda>q sched_id core period mips frames time_domain. (- EINVAL, q))\<rparr>"

definition unwired_ipc :: ipc where
  "unwired_ipc =
     \<lparr>comp_list =
        [\<lparr>icd_type = COMP_TYPE_PIPELINE, icd_core = 0, icd_id = 5, icd_ptr = Some 100\<rparr>,
         \<lparr>icd_type = COMP_TYPE_COMPONENT, icd_core = 0, icd_id = 1, icd_ptr = Some 10\<rparr>],
      heap = [100 \<mapsto> Pipe ((blank_pipeline 7 0 5)\<lparr>p_sched_id := 1\<rparr>),
              10 \<mapsto> Comp (demo_comp 9 COMP_STATE_READY [] [])]\<rparr>"




section \<open>Properties of the schedule domain\<close>

lemma count_filter_agree:
  "\<forall>i<n. g i = f i \<Longrightarrow> length (filter g [0..<n]) = length (filter f [0..<n])"
  by (induction n) auto

lemma count_filter_differ_at:
  "c < n \<Longrightarrow> \<forall>i. i \<noteq> c \<longrightarrow> g i = f i \<Longrightarrow>
     length (filter g [0..<n]) + (if f c then 1 else 0)
       = length (filter f [0..<n]) + (if g c then 1 else 0)"
proof (induction n)
  case 0
  then show ?case by simp
next
  case (Suc n)
  show ?case
  proof (cases "c = n")
    case True
    with Suc.prems have "\<forall>i<n. g i = f i" by simp
    from count_filter_agree [OF this] True show ?thesis by simp
  next
    case False
    with Suc.prems have "c < n" by simp
    from Suc.IH [OF this Suc.prems(2)] False Suc.prems(2) show ?thesis
      by (auto split: if_splits)
  qed
qed

lemma count_filter_le: "length (filter f [0..<n]) \<le> n"
  using length_filter_le [of f "[0..<n]"] by simp

lemma sint_succ:
  fixes w :: "32 word"
  assumes "sint w = int k" "k < 2 ^ 31 - 1"
  shows "sint (w + 1) = int k + 1"
proof -
  have "sint (w + 1) = signed_take_bit 31 (sint w + 1)"
    by (simp add: sint_word_ariths)
  also have "\<dots> = int k + 1"
    using assms by (simp add: signed_take_bit_int_eq_self)
  finally show ?thesis .
qed

lemma sint_pred:
  fixes w :: "32 word"
  assumes "sint w = int k" "0 < k" "k < 2 ^ 31"
  shows "sint (w - 1) = int k - 1"
proof -
  have "sint (w - 1) = signed_take_bit 31 (sint w - 1)"
    by (simp add: sint_word_ariths)
  also have "\<dots> = int k - 1"
    using assms by (simp add: signed_take_bit_int_eq_self)
  finally show ?thesis .
qed

lemma valid_core_nat: "valid_core cc core \<Longrightarrow> nat core < cc"
  by (auto simp: valid_core_def)

lemma count_enabled_le: "count_enabled cc d \<le> cc"
  by (simp add: count_enabled_def count_filter_le)

lemma count_enabled_set:
  assumes "c < cc" "\<not> enabled d c" "enabled d1 = enabled d"
  shows "count_enabled cc (d1\<lparr>enabled := (enabled d1)(c := True), enabled_cores := w\<rparr>)
           = Suc (count_enabled cc d)"
  using count_filter_differ_at [of c cc "(enabled d)(c := True)" "enabled d"] assms
  by (simp add: count_enabled_def)

lemma count_enabled_clear:
  assumes "c < cc" "enabled d c" "enabled d1 = enabled d"
  shows "Suc (count_enabled cc (d1\<lparr>enabled := (enabled d1)(c := False), enabled_cores := w\<rparr>))
           = count_enabled cc d"
  using count_filter_differ_at [of c cc "(enabled d)(c := False)" "enabled d"] assms
  by (simp add: count_enabled_def)

lemma domain_enable_inv:
  assumes cc: "cc < 2 ^ 31" and hk: "hooks_keep_enabled ops" and vc: "valid_core cc core"
    and inv: "enabled_cores_inv cc (domain m)"
  shows "\<exists>m'. domain_enable cc ops m core = Inr m' \<and> enabled_cores_inv cc (domain m')"
proof (cases "ops_domain_enable ops")
  case None
  with vc inv show ?thesis by (simp add: domain_enable_def split: bool.split)
next
  case (Some hook)
  with hk have fr: "\<And>d c. enabled (hook d c) = enabled d"
    "\<And>d c. enabled_cores (hook d c) = enabled_cores d"
    by (simp_all add: hooks_keep_enabled_def)
  show ?thesis
  proof (cases "enabled (domain m) (nat core)")
    case True
    with vc inv Some show ?thesis by (simp add: domain_enable_def)
  next
    case False
    let ?d1 = "hook (domain m) core"
    let ?d3 = "?d1\<lparr>enabled := (enabled ?d1)(nat core := True), enabled_cores := enabled_cores ?d1 + 1\<rparr>"
    have n: "count_enabled cc ?d3 = Suc (count_enabled cc (domain m))"
      by (rule count_enabled_set) (use vc False fr in \<open>simp_all add: valid_core_nat\<close>)
    have "count_enabled cc ?d3 \<le> cc" by (rule count_enabled_le)
    with n cc have lt: "count_enabled cc (domain m) < 2 ^ 31 - 1" by simp
    from inv have "sint (enabled_cores ?d1) = int (count_enabled cc (domain m))"
      by (simp add: enabled_cores_inv_def fr)
    from sint_succ [OF this lt] n have "enabled_cores_inv cc ?d3"
      by (simp add: enabled_cores_inv_def)
    with vc False Some show ?thesis by (simp add: domain_enable_def Let_def)
  qed
qed

lemma domain_disable_inv:
  assumes cc: "cc < 2 ^ 31" and hk: "hooks_keep_enabled ops" and vc: "valid_core cc core"
    and inv: "enabled_cores_inv cc (domain m)"
  shows "\<exists>m'. domain_disable cc ops m core = Inr m' \<and> enabled_cores_inv cc (domain m')"
proof (cases "ops_domain_disable ops")
  case None
  with vc inv show ?thesis by (simp add: domain_disable_def split: bool.split)
next
  case (Some hook)
  with hk have fr: "\<And>d c. enabled (hook d c) = enabled d"
    "\<And>d c. enabled_cores (hook d c) = enabled_cores d"
    by (simp_all add: hooks_keep_enabled_def)
  show ?thesis
  proof (cases "enabled (domain m) (nat core)")
    case False
    with vc inv Some show ?thesis by (simp add: domain_disable_def)
  next
    case True
    let ?d1 = "hook (domain m) core"
    let ?d3 = "?d1\<lparr>enabled := (enabled ?d1)(nat core := False), enabled_cores := enabled_cores ?d1 - 1\<rparr>"
    have n: "Suc (count_enabled cc ?d3) = count_enabled cc (domain m)"
      by (rule count_enabled_clear) (use vc True fr in \<open>simp_all add: valid_core_nat\<close>)
    then have pos: "0 < count_enabled cc (domain m)" by simp
    have "count_enabled cc (domain m) \<le> cc" by (rule count_enabled_le)
    with cc have lt: "count_enabled cc (domain m) < 2 ^ 31" by simp
    from inv have "sint (enabled_cores ?d1) = int (count_enabled cc (domain m))"
      by (simp add: enabled_cores_inv_def fr)
    from sint_pred [OF this pos lt] n have "enabled_cores_inv cc ?d3"
      by (simp add: enabled_cores_inv_def)
    with vc True Some show ?thesis by (simp add: domain_disable_def Let_def)
  qed
qed

text \<open>
  From a state where \<^verbatim>\<open>enabled_cores\<close> equals the number of true entries of
  \<^verbatim>\<open>enabled[]\<close>, every sequence of \<^verbatim>\<open>domain_enable\<close> and \<^verbatim>\<open>domain_disable\<close> calls on core
  indices inside the array runs without a fault and ends in such a state, for a backend
  whose enable and disable hooks leave both alone. The core count is below \<open>2 ^ 31\<close>, so
  the signed counter can hold it.
\<close>

lemma run_calls_inv:
  assumes cc: "cc < 2 ^ 31" and hk: "hooks_keep_enabled ops"
  shows "\<forall>c\<in>set calls. valid_core cc (call_core c) \<Longrightarrow> enabled_cores_inv cc (domain m) \<Longrightarrow>
         \<exists>m'. run_calls cc ops m calls = Inr m' \<and> enabled_cores_inv cc (domain m')"
proof (induction calls arbitrary: m)
  case Nil
  then show ?case by simp
next
  case (Cons c cs)
  show ?case
  proof (cases c)
    case (Enable k)
    with Cons.prems have "valid_core cc k" by simp
    from domain_enable_inv [OF cc hk this Cons.prems(2)]
    obtain m1 where m1: "domain_enable cc ops m k = Inr m1" "enabled_cores_inv cc (domain m1)"
      by blast
    from Cons.IH [OF _ m1(2)] Cons.prems(1) m1(1) Enable show ?thesis by simp
  next
    case (Disable k)
    with Cons.prems have "valid_core cc k" by simp
    from domain_disable_inv [OF cc hk this Cons.prems(2)]
    obtain m1 where m1: "domain_disable cc ops m k = Inr m1" "enabled_cores_inv cc (domain m1)"
      by blast
    from Cons.IH [OF _ m1(2)] Cons.prems(1) m1(1) Disable show ?thesis by simp
  qed
qed

text \<open>
  \<^verbatim>\<open>domain_init\<close> on a block whose \<^verbatim>\<open>enabled[]\<close> happens to hold no true.
\<close>

lemma domain_init_inv:
  assumes "\<forall>i<cc. \<not> enabled blk i"
  shows "\<exists>d. domain_init (Some blk) tk ty ck sy = Inr d \<and> enabled_cores d = 0
             \<and> enabled_cores_inv cc d"
proof -
  have "filter (enabled blk) [0..<cc] = []"
    using assms by (simp add: filter_empty_conv)
  then show ?thesis
    by (simp add: domain_init_def enabled_cores_inv_def count_enabled_def)
qed

text \<open>
  C8 (as amended). For a core index inside the array, the second of two consecutive
  \<^verbatim>\<open>domain_enable\<close> calls changes nothing: not the counter, not the flags, and it calls
  no hook. The two calls together call the enable hook once when \<^verbatim>\<open>enabled[core]\<close> was
  false and the backend has the hook, and not at all otherwise.
\<close>

theorem domain_enable_second_call_noop:
  assumes "valid_core cc core"
  shows "\<exists>m1. domain_enable cc ops m core = Inr m1
           \<and> domain_enable cc ops m1 core = Inr m1
           \<and> hook_log m1 = hook_log m @
                (if \<not> enabled (domain m) (nat core) \<and> ops_domain_enable ops \<noteq> None
                 then [Hook_enable core] else [])"
  using assms
  by (cases "ops_domain_enable ops"; cases "enabled (domain m) (nat core)")
     (simp_all add: domain_enable_def Let_def)

text \<open>
  C8, at a concrete input: two cores, core 1 disabled, a backend with an enable hook.
\<close>

theorem domain_enable_second_call_noop_witness:
  "\<exists>m1. domain_enable 2 quiet_ops \<lparr>domain = zero_block, hook_log = []\<rparr> 1 = Inr m1
           \<and> domain_enable 2 quiet_ops m1 1 = Inr m1
           \<and> hook_log m1 = [Hook_enable 1]"
  using domain_enable_second_call_noop [of 2 1 quiet_ops "\<lparr>domain = zero_block, hook_log = []\<rparr>"]
  by (simp add: valid_core_def quiet_ops_def zero_block_def)

text \<open>
  C8 as stated fails where \<^verbatim>\<open>enabled[core]\<close> is already true: two calls on core 0 return
  the state they were given, and the log of hook calls stays empty, so the hook ran
  zero times, not once.
\<close>

theorem domain_enable_twice_no_hook_call:
  "enable_twice 1 quiet_ops \<lparr>domain = stale_block, hook_log = []\<rparr> 0
     = Inr \<lparr>domain = stale_block, hook_log = []\<rparr>
   \<and> hook_enable_calls (hook_log \<lparr>domain = stale_block, hook_log = []\<rparr>) \<noteq> 1"
  by (simp add: enable_twice_def domain_enable_def valid_core_def stale_block_def
      zero_block_def quiet_ops_def)

text \<open>
  C9. Whatever the backend's hooks do and whatever tick was set, after \<^verbatim>\<open>domain_set\<close>
  and then \<^verbatim>\<open>domain_clear\<close> the field \<^verbatim>\<open>next_tick\<close> is \<^verbatim>\<open>UINT64_MAX\<close>, the largest
  64-bit value.
\<close>

theorem domain_set_clear_unset:
  "next_tick (domain (domain_clear ops (domain_set ops m v))) = UINT64_MAX
   \<and> (\<forall>w. w \<le> UINT64_MAX)"
  by (simp add: domain_clear_def UINT64_MAX_def Let_def split: option.split)

text \<open>
  C7. The code at initialization: \<^verbatim>\<open>domain_init\<close> takes its block from \<^verbatim>\<open>rballoc\<close>,
  sets \<^verbatim>\<open>enabled_cores\<close> to 0 and never writes \<^verbatim>\<open>enabled[]\<close>. With a block whose
  \<^verbatim>\<open>enabled[0]\<close> holds a true, the counter is 0 and one entry is true after
  initialization, so the invariant does not hold, and \<^verbatim>\<open>domain_enable\<close> on core 0 then
  returns without calling the backend.
\<close>

theorem domain_init_stale_enabled:
  "(case domain_init (Some stale_block) (\<lambda>c n. 0) 0 0 False of
      Inl f \<Rightarrow> False
    | Inr d \<Rightarrow>
        enabled_cores d = 0 \<and> enabled d 0 \<and> \<not> enabled_cores_inv 1 d
        \<and> domain_enable 1 quiet_ops \<lparr>domain = d, hook_log = []\<rparr> 0
            = Inr \<lparr>domain = d, hook_log = []\<rparr>)"
  by (simp add: domain_init_def stale_block_def zero_block_def enabled_cores_inv_def
      count_enabled_def domain_enable_def valid_core_def quiet_ops_def)

text \<open>
  What a failed \<^verbatim>\<open>domain_unregister\<close> does restore, for a hook that reports failure
  without touching the domain: \<^verbatim>\<open>total_num_tasks\<close> always, and \<^verbatim>\<open>registered[]\<close> whenever
  the call had not cleared the flag (tasks remain on the core, or the flag was false).
\<close>

lemma domain_unregister_failure_restores:
  assumes "valid_core cc cpu"
    and "ops_domain_unregister ops = Some hook"
    and "\<forall>d. \<exists>ret. hook d tsk n = Some (ret, d) \<and> ret < 0"
  shows "\<exists>m'. domain_unregister cc ops m cpu tsk n = Inr m'
           \<and> total_num_tasks (domain m') = total_num_tasks (domain m)
           \<and> (n \<noteq> 0 \<or> \<not> registered (domain m) (nat cpu) \<longrightarrow>
                registered (domain m') = registered (domain m))"
proof (cases "n = 0 \<and> registered (domain m) (nat cpu)")
  case True
  let ?d2 = "(domain m)\<lparr>total_num_tasks := total_num_tasks (domain m) - 1,
                registered := (registered (domain m))(nat cpu := False)\<rparr>"
  from assms(3) obtain ret where "hook ?d2 tsk n = Some (ret, ?d2)" "ret < 0" by blast
  with assms(1,2) True show ?thesis
    by (simp add: domain_unregister_def Let_def)
next
  case False
  let ?d1 = "(domain m)\<lparr>total_num_tasks := total_num_tasks (domain m) - 1\<rparr>"
  from assms(3) obtain ret where "hook ?d1 tsk n = Some (ret, ?d1)" "ret < 0" by blast
  with assms(1,2) False show ?thesis
    by (auto simp: domain_unregister_def Let_def)
qed

text \<open>
  C1. The code at the claim's own case: the last task of the core is unregistered
  (\<open>num_tasks = 0\<close>), \<^verbatim>\<open>registered[core]\<close> is true, and the hook reports failure without
  touching the domain. \<^verbatim>\<open>total_num_tasks\<close> is back at its value, but \<^verbatim>\<open>registered[core]\<close>
  stays false: the restoring branch tests the flag it has just cleared.
\<close>

theorem domain_unregister_failure_drops_flag:
  assumes "valid_core cc cpu"
    and "ops_domain_unregister ops = Some hook"
    and "\<forall>d. \<exists>ret. hook d tsk 0 = Some (ret, d) \<and> ret < 0"
    and "registered (domain m) (nat cpu)"
  shows "\<exists>m'. domain_unregister cc ops m cpu tsk 0 = Inr m'
           \<and> total_num_tasks (domain m') = total_num_tasks (domain m)
           \<and> \<not> registered (domain m') (nat cpu)"
proof -
  let ?d2 = "(domain m)\<lparr>total_num_tasks := total_num_tasks (domain m) - 1,
                registered := (registered (domain m))(nat cpu := False)\<rparr>"
  from assms(3) obtain ret where r: "hook ?d2 tsk 0 = Some (ret, ?d2)" "ret < 0" by blast
  with assms(1,2,4) show ?thesis
    by (simp add: domain_unregister_def Let_def)
qed

text \<open>
  C1, at a concrete input: one core, one task, the hook returns \<open>- 1\<close>.
\<close>

theorem domain_unregister_failure_drops_flag_witness:
  "\<exists>m'. domain_unregister 1 quiet_ops
            \<lparr>domain = zero_block\<lparr>total_num_tasks := 1, registered := (\<lambda>i. i = 0)\<rparr>,
             hook_log = []\<rparr> 0 7 0 = Inr m'
         \<and> total_num_tasks (domain m') = 1
         \<and> \<not> registered (domain m') 0"
  using domain_unregister_failure_drops_flag [of 1 0 quiet_ops "\<lambda>d t n. Some (- 1, d)" 7
      "\<lparr>domain = zero_block\<lparr>total_num_tasks := 1, registered := (\<lambda>i. i = 0)\<rparr>, hook_log = []\<rparr>"]
  by (simp add: valid_core_def quiet_ops_def zero_block_def)

section \<open>Properties of the topology helpers\<close>


text \<open>
  C10. A creation message whose core is \<^verbatim>\<open>CONFIG_CORE_COUNT\<close> or more makes
  \<^verbatim>\<open>ipc_comp_new\<close> return \<open>- EINVAL\<close> with the registry and the memory as they were,
  whatever the driver table, the allocator and the rest of the environment are: the
  check comes before the driver lookup and the instantiation.
\<close>

theorem ipc_comp_new_core_check:
  assumes "cc \<le> unat (c_core c)"
  shows "ipc_comp_new cc e s c = (- EINVAL, s)"
  using assms by (simp add: ipc_comp_new_def)

text \<open>
  C10, at a concrete input: two cores, a volume component declared on core 2.
\<close>

theorem ipc_comp_new_core_check_witness:
  "ipc_comp_new 2 demo_env (demo_ipc COMP_STATE_READY COMP_STATE_READY 0) (demo_comp_msg 2)
     = (- EINVAL, demo_ipc COMP_STATE_READY COMP_STATE_READY 0)"
  using ipc_comp_new_core_check [of 2 "demo_comp_msg 2" demo_env
      "demo_ipc COMP_STATE_READY COMP_STATE_READY 0"]
  by (simp add: demo_comp_msg_def)

text \<open>
  The same message on core 1 is accepted.
\<close>

lemma ipc_comp_new_core_in_range_example:
  "fst (ipc_comp_new 2 demo_env (demo_ipc COMP_STATE_READY COMP_STATE_READY 0) (demo_comp_msg 1)) = 0"
  by (simp add: ipc_comp_new_def demo_comp_msg_def demo_ipc_def ipc_get_comp_by_id_def
      comp_new_def get_drv_def demo_env_def split: prod.split)

text \<open>
  C6. When both ids resolve and the pair of entry types is neither (buffer, component)
  nor (component, buffer), \<^verbatim>\<open>ipc_comp_connect\<close> returns \<open>- EINVAL\<close>, the code's value for
  an invalid connection, and the registry and the memory are as they were.
\<close>

theorem ipc_comp_connect_invalid_types:
  assumes "ipc_get_comp_by_id s (pc_source_id connect) = Some i"
    and "ipc_get_comp_by_id s (pc_sink_id connect) = Some j"
    and "\<not> (icd_type (comp_list s ! i) = COMP_TYPE_BUFFER
             \<and> icd_type (comp_list s ! j) = COMP_TYPE_COMPONENT)"
    and "\<not> (icd_type (comp_list s ! i) = COMP_TYPE_COMPONENT
             \<and> icd_type (comp_list s ! j) = COMP_TYPE_BUFFER)"
  shows "ipc_comp_connect e s connect = Inr (- EINVAL, s)"
  using assms by (auto simp: ipc_comp_connect_def)

text \<open>
  C6, at concrete inputs: component 1 to component 2, and buffer 10 to itself.
\<close>

theorem ipc_comp_connect_invalid_types_witness:
  "ipc_comp_connect demo_env (demo_ipc COMP_STATE_READY COMP_STATE_READY 0)
       \<lparr>pc_source_id = 1, pc_sink_id = 2\<rparr>
     = Inr (- EINVAL, demo_ipc COMP_STATE_READY COMP_STATE_READY 0)
   \<and> ipc_comp_connect demo_env (demo_ipc COMP_STATE_READY COMP_STATE_READY 0)
       \<lparr>pc_source_id = 10, pc_sink_id = 10\<rparr>
     = Inr (- EINVAL, demo_ipc COMP_STATE_READY COMP_STATE_READY 0)"
  using ipc_comp_connect_invalid_types [of "demo_ipc COMP_STATE_READY COMP_STATE_READY 0"
      "\<lparr>pc_source_id = 1, pc_sink_id = 2\<rparr>" 0 1 demo_env]
    ipc_comp_connect_invalid_types [of "demo_ipc COMP_STATE_READY COMP_STATE_READY 0"
      "\<lparr>pc_source_id = 10, pc_sink_id = 10\<rparr>" 2 2 demo_env]
  by (simp add: ipc_get_comp_by_id_def demo_ipc_def)

text \<open>
  C3. The code where a configuration step fails: \<^verbatim>\<open>pipeline_new\<close> has placed the
  pipeline at a free address, and the scheduling step returns \<open>r1\<close>, or it returns 0
  and the xrun step returns \<open>r2\<close>, not both 0. \<^verbatim>\<open>ipc_pipeline_new\<close> returns that error
  and adds no registry entry, but the pipeline is still allocated at its address: the
  two error branches return without \<^verbatim>\<open>pipeline_free\<close>.
\<close>

theorem ipc_pipeline_new_config_failure_leaks:
  assumes "ipc_get_comp_by_id s (pn_comp_id d) = None"
    and "ipc_get_comp_by_ppl_id s COMP_TYPE_PIPELINE (pn_pipeline_id d) = Inr None"
    and "\<not> pipeline_new_fails e"
    and "heap s (new_addr e s) = None"
    and "pipeline_schedule_config e
           (blank_pipeline (pn_pipeline_id d) (pn_priority d) (pn_comp_id d))
           (pn_sched_id d) (pn_core d) (pn_period d) (pn_period_mips d)
           (pn_frames_per_sched d) (pn_time_domain d) = (r1, q1)"
    and "pipeline_xrun_set_limit e q1 (pn_xrun_limit_usecs d) = (r2, q2)"
    and "r1 \<noteq> 0 \<or> r2 \<noteq> 0"
  shows "\<exists>s'. ipc_pipeline_new e s d = Inr (if r1 \<noteq> 0 then r1 else r2, s')
           \<and> comp_list s' = comp_list s
           \<and> heap s' (new_addr e s) = Some (Pipe (if r1 \<noteq> 0 then q1 else q2))
           \<and> (\<forall>a. a \<noteq> new_addr e s \<longrightarrow> heap s' a = heap s a)"
  using assms
  by (auto simp: ipc_pipeline_new_def pipeline_new_def on_pipeline_def deref_pipe_def Let_def)

text \<open>
  C3, at a concrete input: the scheduling step returns \<open>- EINVAL\<close>; address 40 was
  free and holds the pipeline afterwards.
\<close>

theorem ipc_pipeline_new_config_failure_leaks_witness:
  "\<exists>s'. ipc_pipeline_new failing_config_env (demo_ipc COMP_STATE_READY COMP_STATE_READY 0)
            demo_pipe_msg = Inr (- EINVAL, s')
         \<and> comp_list s' = comp_list (demo_ipc COMP_STATE_READY COMP_STATE_READY 0)
         \<and> heap (demo_ipc COMP_STATE_READY COMP_STATE_READY 0) 40 = None
         \<and> heap s' 40 = Some (Pipe (blank_pipeline 5 0 4))"
proof -
  let ?s = "demo_ipc COMP_STATE_READY COMP_STATE_READY 0"
  have a1: "ipc_get_comp_by_id ?s (pn_comp_id demo_pipe_msg) = None"
    by (simp add: ipc_get_comp_by_id_def demo_ipc_def demo_pipe_msg_def)
  have a2: "ipc_get_comp_by_ppl_id ?s COMP_TYPE_PIPELINE (pn_pipeline_id demo_pipe_msg) = Inr None"
    by (simp add: ipc_get_comp_by_ppl_id_def demo_ipc_def)
  have a3: "\<not> pipeline_new_fails failing_config_env"
    by (simp add: failing_config_env_def demo_env_def)
  have a4: "heap ?s (new_addr failing_config_env ?s) = None"
    by (simp add: failing_config_env_def demo_env_def demo_ipc_def)
  have a5: "pipeline_schedule_config failing_config_env
           (blank_pipeline (pn_pipeline_id demo_pipe_msg) (pn_priority demo_pipe_msg)
              (pn_comp_id demo_pipe_msg))
           (pn_sched_id demo_pipe_msg) (pn_core demo_pipe_msg) (pn_period demo_pipe_msg)
           (pn_period_mips demo_pipe_msg) (pn_frames_per_sched demo_pipe_msg)
           (pn_time_domain demo_pipe_msg) = (- EINVAL, blank_pipeline 5 0 4)"
    by (simp add: failing_config_env_def demo_pipe_msg_def)
  have a6: "pipeline_xrun_set_limit failing_config_env (blank_pipeline 5 0 4)
              (pn_xrun_limit_usecs demo_pipe_msg)
            = (0, (blank_pipeline 5 0 4)\<lparr>p_xrun_limit_usecs := 500\<rparr>)"
    by (simp add: failing_config_env_def demo_env_def demo_pipe_msg_def)
  have a7: "- EINVAL \<noteq> 0 \<or> (0::int) \<noteq> 0" by (simp add: EINVAL_def)
  have n: "new_addr failing_config_env ?s = 40"
    by (simp add: failing_config_env_def demo_env_def)
  from ipc_pipeline_new_config_failure_leaks [OF a1 a2 a3 a4 a5 a6 a7] a4 n
  show ?thesis by (auto simp: EINVAL_def)
qed

text \<open>
  The sibling branch: when both steps succeed and the allocation of the registry entry
  fails, the pipeline is freed.
\<close>

lemma ipc_pipeline_new_container_failure_frees:
  assumes "ipc_get_comp_by_id s (pn_comp_id d) = None"
    and "ipc_get_comp_by_ppl_id s COMP_TYPE_PIPELINE (pn_pipeline_id d) = Inr None"
    and "\<not> pipeline_new_fails e"
    and "pipeline_schedule_config e
           (blank_pipeline (pn_pipeline_id d) (pn_priority d) (pn_comp_id d))
           (pn_sched_id d) (pn_core d) (pn_period d) (pn_period_mips d)
           (pn_frames_per_sched d) (pn_time_domain d) = (0, q1)"
    and "pipeline_xrun_set_limit e q1 (pn_xrun_limit_usecs d) = (0, q2)"
    and "rzalloc_fails e"
  shows "\<exists>s'. ipc_pipeline_new e s d = Inr (- ENOMEM, s')
           \<and> comp_list s' = comp_list s
           \<and> heap s' (new_addr e s) = None"
  using assms
  by (auto simp: ipc_pipeline_new_def pipeline_new_def on_pipeline_def deref_pipe_def Let_def
      pipeline_free_def)

text \<open>
  A pointer that reads at a type is an address holding an object of that type.
\<close>

lemma deref_pipe_Inr:
  "deref_pipe s ptr = Inr (a, p) \<Longrightarrow> ptr = Some a \<and> heap s a = Some (Pipe p)"
  by (auto simp: deref_pipe_def split: option.splits obj.splits)



text \<open>
  C2 (as amended). A failing \<^verbatim>\<open>ipc_pipeline_complete\<close> that runs on the pipeline's core
  returns \<open>- EINVAL\<close>, leaves the registry alone and leaves \<^verbatim>\<open>source_comp\<close> and
  \<^verbatim>\<open>sink_comp\<close> of every pipeline as they were. What else it leaves is decided by where
  it fails. When the pipeline is absent, nothing has changed. Otherwise the entry reads as
  a pipeline, and: when the scheduling component is absent, is not a component or is on
  another core, nothing has changed; when it passes these checks, the call has failed on
  an unresolvable source or sink endpoint, \<^verbatim>\<open>sched_comp\<close> of the pipeline holds the
  scheduling component's pointer, and nothing else has changed.
\<close>

theorem ipc_pipeline_complete_failure:
  assumes run: "ipc_pipeline_complete e s comp_id = Inr (ret, s')"
    and fail: "ret \<noteq> 0"
    and here: "\<forall>i. ipc_get_comp_by_id s comp_id = Some i \<longrightarrow> cpu_is_me e (icd_core (comp_list s ! i))"
  shows "ret = - EINVAL
     \<and> comp_list s' = comp_list s
     \<and> (\<forall>a q. heap s a = Some (Pipe q) \<longrightarrow>
           (\<exists>q'. heap s' a = Some (Pipe q') \<and> p_source_comp q' = p_source_comp q
                 \<and> p_sink_comp q' = p_sink_comp q))
     \<and> (ipc_get_comp_by_id s comp_id = None \<longrightarrow> s' = s)
     \<and> (\<forall>i. ipc_get_comp_by_id s comp_id = Some i \<longrightarrow>
           (\<exists>a p. deref_pipe s (icd_ptr (comp_list s ! i)) = Inr (a, p)))
     \<and> (\<forall>i a p. ipc_get_comp_by_id s comp_id = Some i
             \<and> deref_pipe s (icd_ptr (comp_list s ! i)) = Inr (a, p) \<longrightarrow>
           (case ipc_get_comp_by_id s (p_sched_id p) of
              None \<Rightarrow> s' = s
            | Some j \<Rightarrow>
                if icd_type (comp_list s ! j) \<noteq> COMP_TYPE_COMPONENT
                   \<or> icd_core (comp_list s ! j) \<noteq> icd_core (comp_list s ! i)
                then s' = s
                else s' = s\<lparr>heap := (heap s)
                            (a \<mapsto> Pipe (p\<lparr>p_sched_comp := icd_ptr (comp_list s ! j)\<rparr>))\<rparr>
                     \<and> (ipc_get_ppl_src_comp s' (p_pipeline_id p) = None
                          \<or> ipc_get_ppl_sink_comp s' (p_pipeline_id p) = None)))"
proof -
  have shape: "ret = - EINVAL \<and> (s' = s \<or>
         (\<exists>a p cd. heap s a = Some (Pipe p)
           \<and> s' = s\<lparr>heap := (heap s)(a \<mapsto> Pipe (p\<lparr>p_sched_comp := cd\<rparr>))\<rparr>))"
    using run fail here
    by (auto simp: ipc_pipeline_complete_def Let_def pipeline_complete_def
        dest!: deref_pipe_Inr
        split: option.splits sum.splits if_splits prod.splits)
  then have ret: "ret = - EINVAL" by simp
  from shape consider (same) "s' = s"
    | (bound) a p cd where "heap s a = Some (Pipe p)"
        "s' = s\<lparr>heap := (heap s)(a \<mapsto> Pipe (p\<lparr>p_sched_comp := cd\<rparr>))\<rparr>"
    by auto
  then have keep: "comp_list s' = comp_list s
     \<and> (\<forall>a q. heap s a = Some (Pipe q) \<longrightarrow>
           (\<exists>q'. heap s' a = Some (Pipe q') \<and> p_source_comp q' = p_source_comp q
                 \<and> p_sink_comp q' = p_sink_comp q))"
  proof cases
    case same
    then show ?thesis by simp
  next
    case bound
    then show ?thesis by simp
  qed
  have absent: "ipc_get_comp_by_id s comp_id = None \<longrightarrow> s' = s"
    using run by (auto simp: ipc_pipeline_complete_def)
  have reads: "\<forall>i. ipc_get_comp_by_id s comp_id = Some i \<longrightarrow>
           (\<exists>a p. deref_pipe s (icd_ptr (comp_list s ! i)) = Inr (a, p))"
    using run here
    by (auto simp: ipc_pipeline_complete_def Let_def split: sum.splits)
  have steps: "\<forall>i a p. ipc_get_comp_by_id s comp_id = Some i
             \<and> deref_pipe s (icd_ptr (comp_list s ! i)) = Inr (a, p) \<longrightarrow>
           (case ipc_get_comp_by_id s (p_sched_id p) of
              None \<Rightarrow> s' = s
            | Some j \<Rightarrow>
                if icd_type (comp_list s ! j) \<noteq> COMP_TYPE_COMPONENT
                   \<or> icd_core (comp_list s ! j) \<noteq> icd_core (comp_list s ! i)
                then s' = s
                else s' = s\<lparr>heap := (heap s)
                            (a \<mapsto> Pipe (p\<lparr>p_sched_comp := icd_ptr (comp_list s ! j)\<rparr>))\<rparr>
                     \<and> (ipc_get_ppl_src_comp s' (p_pipeline_id p) = None
                          \<or> ipc_get_ppl_sink_comp s' (p_pipeline_id p) = None))"
  proof (intro allI impI, elim conjE)
    fix i a p
    assume f: "ipc_get_comp_by_id s comp_id = Some i"
      and d: "deref_pipe s (icd_ptr (comp_list s ! i)) = Inr (a, p)"
    from here f have me: "cpu_is_me e (icd_core (comp_list s ! i))" by simp
    show "case ipc_get_comp_by_id s (p_sched_id p) of
              None \<Rightarrow> s' = s
            | Some j \<Rightarrow>
                if icd_type (comp_list s ! j) \<noteq> COMP_TYPE_COMPONENT
                   \<or> icd_core (comp_list s ! j) \<noteq> icd_core (comp_list s ! i)
                then s' = s
                else s' = s\<lparr>heap := (heap s)
                            (a \<mapsto> Pipe (p\<lparr>p_sched_comp := icd_ptr (comp_list s ! j)\<rparr>))\<rparr>
                     \<and> (ipc_get_ppl_src_comp s' (p_pipeline_id p) = None
                          \<or> ipc_get_ppl_sink_comp s' (p_pipeline_id p) = None)"
      using run fail f d me
      by (auto simp: ipc_pipeline_complete_def Let_def pipeline_complete_def
          split: option.splits sum.splits if_splits prod.splits)
  qed
  from ret keep absent reads steps show ?thesis by blast
qed

text \<open>
  C2 as stated fails where an endpoint cannot be resolved: pipeline 7 has a valid
  scheduling component and no component of its own; the call fails and \<^verbatim>\<open>sched_comp\<close>,
  absent before, points to the scheduling component afterwards.
\<close>

theorem ipc_pipeline_complete_binds_sched_then_fails:
  "(case ipc_pipeline_complete demo_env unwired_ipc 5 of
      Inl f \<Rightarrow> False
    | Inr (ret, s') \<Rightarrow>
        ret = - EINVAL
        \<and> (case heap unwired_ipc 100 of Some (Pipe q) \<Rightarrow> p_sched_comp q = None | _ \<Rightarrow> False)
        \<and> (case heap s' 100 of Some (Pipe q) \<Rightarrow> p_sched_comp q = Some 10 | _ \<Rightarrow> False))"
  by (simp add: ipc_pipeline_complete_def unwired_ipc_def ipc_get_comp_by_id_def demo_env_def
      cpu_is_me_def deref_pipe_def blank_pipeline_def ipc_get_ppl_src_comp_def deref_comp_def
      demo_comp_def Let_def)

text \<open>
  C2, at the same concrete input: the source and sink references stay absent and
  \<^verbatim>\<open>sched_comp\<close> is bound.
\<close>

theorem ipc_pipeline_complete_failure_witness:
  "\<exists>s'. ipc_pipeline_complete demo_env unwired_ipc 5 = Inr (- EINVAL, s')
         \<and> comp_list s' = comp_list unwired_ipc
         \<and> (\<exists>q'. heap s' 100 = Some (Pipe q') \<and> p_source_comp q' = None \<and> p_sink_comp q' = None
                \<and> p_sched_comp q' = Some 10)"
proof -
  let ?p = "(blank_pipeline 7 0 5)\<lparr>p_sched_id := 1\<rparr>"
  obtain s' where run: "ipc_pipeline_complete demo_env unwired_ipc 5 = Inr (- EINVAL, s')"
    by (simp add: ipc_pipeline_complete_def unwired_ipc_def ipc_get_comp_by_id_def demo_env_def
        cpu_is_me_def deref_pipe_def blank_pipeline_def ipc_get_ppl_src_comp_def deref_comp_def
        demo_comp_def Let_def)
  have fail: "- EINVAL \<noteq> 0" by (simp add: EINVAL_def)
  have here: "\<forall>i. ipc_get_comp_by_id unwired_ipc 5 = Some i \<longrightarrow>
                cpu_is_me demo_env (icd_core (comp_list unwired_ipc ! i))"
    by (simp add: unwired_ipc_def ipc_get_comp_by_id_def demo_env_def cpu_is_me_def)
  have l1: "ipc_get_comp_by_id unwired_ipc 5 = Some 0"
    by (simp add: unwired_ipc_def ipc_get_comp_by_id_def)
  have d1: "deref_pipe unwired_ipc (icd_ptr (comp_list unwired_ipc ! 0)) = Inr (100, ?p)"
    by (simp add: unwired_ipc_def deref_pipe_def)
  have l2: "ipc_get_comp_by_id unwired_ipc (p_sched_id ?p) = Some 1"
    by (simp add: unwired_ipc_def ipc_get_comp_by_id_def)
  have ok: "\<not> (icd_type (comp_list unwired_ipc ! 1) \<noteq> COMP_TYPE_COMPONENT
              \<or> icd_core (comp_list unwired_ipc ! 1) \<noteq> icd_core (comp_list unwired_ipc ! 0))"
    and ptr: "icd_ptr (comp_list unwired_ipc ! 1) = Some 10"
    by (simp_all add: unwired_ipc_def)
  from ipc_pipeline_complete_failure [OF run fail here]
  have keep: "comp_list s' = comp_list unwired_ipc"
    and steps: "ipc_get_comp_by_id unwired_ipc 5 = Some 0
             \<and> deref_pipe unwired_ipc (icd_ptr (comp_list unwired_ipc ! 0)) = Inr (100, ?p) \<longrightarrow>
           (case ipc_get_comp_by_id unwired_ipc (p_sched_id ?p) of
              None \<Rightarrow> s' = unwired_ipc
            | Some j \<Rightarrow>
                if icd_type (comp_list unwired_ipc ! j) \<noteq> COMP_TYPE_COMPONENT
                   \<or> icd_core (comp_list unwired_ipc ! j) \<noteq> icd_core (comp_list unwired_ipc ! 0)
                then s' = unwired_ipc
                else s' = unwired_ipc\<lparr>heap := (heap unwired_ipc)
                            (100 \<mapsto> Pipe (?p\<lparr>p_sched_comp := icd_ptr (comp_list unwired_ipc ! j)\<rparr>))\<rparr>
                     \<and> (ipc_get_ppl_src_comp s' (p_pipeline_id ?p) = None
                          \<or> ipc_get_ppl_sink_comp s' (p_pipeline_id ?p) = None))"
    by blast+
  from steps l1 d1 have "case ipc_get_comp_by_id unwired_ipc (p_sched_id ?p) of
              None \<Rightarrow> s' = unwired_ipc
            | Some j \<Rightarrow>
                if icd_type (comp_list unwired_ipc ! j) \<noteq> COMP_TYPE_COMPONENT
                   \<or> icd_core (comp_list unwired_ipc ! j) \<noteq> icd_core (comp_list unwired_ipc ! 0)
                then s' = unwired_ipc
                else s' = unwired_ipc\<lparr>heap := (heap unwired_ipc)
                            (100 \<mapsto> Pipe (?p\<lparr>p_sched_comp := icd_ptr (comp_list unwired_ipc ! j)\<rparr>))\<rparr>
                     \<and> (ipc_get_ppl_src_comp s' (p_pipeline_id ?p) = None
                          \<or> ipc_get_ppl_sink_comp s' (p_pipeline_id ?p) = None)"
    by blast
  then have "s' = unwired_ipc\<lparr>heap := (heap unwired_ipc)
                 (100 \<mapsto> Pipe (?p\<lparr>p_sched_comp := Some 10\<rparr>))\<rparr>"
    unfolding l2 using ok ptr by simp
  then have "\<exists>q'. heap s' 100 = Some (Pipe q') \<and> p_source_comp q' = None \<and> p_sink_comp q' = None
             \<and> p_sched_comp q' = Some 10"
    by (simp add: blank_pipeline_def)
  with run keep show ?thesis by blast
qed













end
